theory Spec2Isabelle
  imports Main "HOL-Library.Word" "HOL-Library.AList"
begin

section \<open>Common types\<close>

text \<open>
  The Go types of package core. \<open>Address\<close> is \<open>[20]byte\<close> and \<open>Hash\<close> is \<open>[32]byte\<close>:
  both are byte lists here (of length 20 and 32 in every value the program builds), so that
  \<open>a.Bytes()\<close> is the value itself. \<open>*big.Int\<close> is \<open>int\<close>, \<open>uint64\<close> is \<open>64 word\<close>,
  \<open>time.Time\<close> and \<open>time.Duration\<close> are \<open>int\<close> (nanoseconds). A nil \<open>*big.Int\<close> argument
  is outside the model.
\<close>

type_synonym byte = "8 word"
type_synonym bytes = "byte list"
type_synonym Address = bytes
type_synonym Hash = bytes
type_synonym uint64 = "64 word"

definition zeroAddress :: Address where
  "zeroAddress = replicate 20 0"

definition zeroHash :: Hash where
  "zeroHash = replicate 32 0"

text \<open>
  What a call can do besides returning a value: return a Go \<open>error\<close> (\<open>Err\<close>), or not
  return to its caller at all (\<open>Panic\<close>). The panics are a nil pointer dereference, a
  division of a \<open>big.Int\<close> by zero, a slice expression out of range and a \<open>make\<close> whose
  length is out of range; no function of the repository recovers from a panic. The last
  value, \<open>Deadlock\<close>, is not a panic of Go: the goroutine blocks for ever on a mutex that
  it holds itself (the runtime ends the program with \<open>all goroutines are asleep\<close> when no
  other goroutine can run, and otherwise the call just never ends). It stands with the
  panics because, like them, it ends the call with neither a value nor an error.
\<close>

datatype panic =
    NilPointerDereference
  | DivisionByZero
  | SliceBoundsOutOfRange
  | MakesliceLenOutOfRange
  | Deadlock

datatype ('e, 'a) outcome = Ok 'a | Err 'e | Panic panic

text \<open>
  \<open>big.Int.Div\<close> is Euclidean (the remainder is never negative) and panics on a zero
  divisor; \<open>None\<close> is that panic. \<open>big.Int.Mod\<close> gives the Euclidean remainder,
  \<open>x mod \<bar>y\<bar>\<close>.
\<close>

definition big_Div :: "int \<Rightarrow> int \<Rightarrow> int option" where
  "big_Div x y = (if y = 0 then None else Some (if 0 < y then x div y else - (x div (- y))))"

text \<open>\<open>x.Uint64()\<close>: the low 64 bits of the absolute value. \<open>int64(u)\<close> is \<open>sint u\<close>.\<close>

definition big_Uint64 :: "int \<Rightarrow> uint64" where
  "big_Uint64 x = word_of_int \<bar>x\<bar>"

record Transaction =
  Nonce :: uint64
  GasPrice :: int
  GasLimit :: uint64
  To :: "Address option"
  Value :: int
  Data :: bytes
  V :: int
  R :: int
  S :: int
  Hash :: Hash
  From :: Address

record BlockHeader =
  ParentHash :: Hash
  Coinbase :: Address
  StateRoot :: Hash
  TxRoot :: Hash
  ReceiptRoot :: Hash
  Difficulty :: int
  Number :: int
  GasLimit :: uint64
  GasUsed :: uint64
  Timestamp :: uint64
  ExtraData :: bytes
  MixHash :: Hash
  Nonce :: bytes
  Validator :: Address
  Signature :: bytes

record Block =
  Header :: BlockHeader
  Transactions :: "Transaction list"
  Hash :: Hash
  Size :: uint64

text \<open>
  The transaction pool. Its \<open>Add\<close> method is not in the sources, so it is a parameter
  (below).
\<close>

record TxPool =
  pending :: "(Hash \<times> Transaction) list"
  queued :: "(Hash \<times> Transaction) list"
  all :: "(Hash \<times> Transaction) list"
  maxSize :: int

text \<open>
  What the repository takes from libraries outside it, or calls without defining it: the
  hash of a block header (\<open>Keccak256Hash\<close> of its RLP encoding), the RLP encoding of a
  block (it can fail) and its decoding, the check of a transaction's signature
  (\<open>crypto.VerifySignature\<close> as the orchestrator calls it, \<open>True\<close> for a nil error),
  \<open>ecdsa.VerifyASN1\<close>, \<open>Keccak256\<close> and \<open>TxPool.Add\<close>. They are parameters.
\<close>

record Env =
  computeHash :: "BlockHeader \<Rightarrow> Hash"
  encodeBlock :: "Block \<Rightarrow> bytes option"
  decodeBlock :: "bytes \<Rightarrow> Block option"
  verifySignature :: "Address \<Rightarrow> bytes \<Rightarrow> int \<Rightarrow> int \<Rightarrow> int \<Rightarrow> bool"
  verifyASN1 :: "bytes \<Rightarrow> bytes \<Rightarrow> bytes \<Rightarrow> bool"
  keccak256 :: "bytes \<Rightarrow> bytes"
  txPoolAdd :: "Transaction \<Rightarrow> TxPool \<Rightarrow> TxPool"

section \<open>consensus/pos.go\<close>

text \<open>
  The two Go maps of \<open>PoS\<close> are association lists with distinct keys. Go leaves the order
  of a \<open>range\<close> over a map unspecified: the order of the list stands for the order the
  runtime takes, and every theorem below holds for every list, hence for every order.
  The maps hold pointers (\<open>*Validator\<close>, \<open>*Delegation\<close>), each stored in one place only, so
  an assignment through the pointer is an update of the entry. \<open>time.Now()\<close> is the
  argument \<open>now\<close>.
\<close>

datatype ValidatorStatus = ValidatorStatusInactive | ValidatorStatusActive | ValidatorStatusSlashed

datatype DelegationStatus = DelegationStatusActive | DelegationStatusUnbonding | DelegationStatusCompleted

record Config =
  MinStakeAmount :: int
  MaxValidators :: int
  UnbondingPeriod :: int
  SlotDuration :: int
  EpochLength :: uint64
  RewardRate :: int
  SlashRate :: int
  CommissionRate :: uint64

record Validator =
  Address :: Address
  Stake :: int
  TotalDelegated :: int
  Commission :: uint64
  Status :: ValidatorStatus
  LastActive :: int
  TotalBlocks :: uint64
  Rewards :: int
  PublicKey :: "bytes option"

record Delegation =
  Delegator :: Address
  Validator :: Address
  Amount :: int
  Rewards :: int
  StartTime :: int
  UnbondTime :: int
  Status :: DelegationStatus

record PoS =
  config :: Config
  validators :: "(Address \<times> Validator) list"
  delegators :: "(Address \<times> Delegation list) list"
  stakeAmount :: int
  totalStake :: int
  currentSlot :: uint64
  validator :: Address
  privateKey :: "bytes option"

datatype pos_error =
    ErrStakeTooLow
  | ErrMaxValidatorsReached
  | ErrAlreadyRegistered
  | ErrValidatorNotFound
  | ErrValidatorNotActive
  | ErrNoDelegationsFound
  | ErrActiveDelegationNotFound
  | ErrUnbondingPeriodNotCompleted
  | ErrUnbondingDelegationNotFound
  | ErrAlreadySlashed
  | ErrInvalidValidator
  | ErrSignatureMissing
  | ErrInvalidBlockSignature

definition NewPoS :: "int \<Rightarrow> int \<Rightarrow> PoS" where
  "NewPoS stake maxValidators =
     \<lparr>config = \<lparr>MinStakeAmount = stake, MaxValidators = maxValidators,
                 UnbondingPeriod = 7 * 24 * 3600000000000, SlotDuration = 6 * 1000000000,
                 EpochLength = 100, RewardRate = 1000000000000000000,
                 SlashRate = 500000000000000000, CommissionRate = 1000\<rparr>,
      validators = [], delegators = [], stakeAmount = stake, totalStake = 0,
      currentSlot = 0, validator = zeroAddress, privateKey = None\<rparr>"

definition RegisterValidator ::
  "PoS \<Rightarrow> int \<Rightarrow> Address \<Rightarrow> int \<Rightarrow> uint64 \<Rightarrow> bytes option \<Rightarrow> (pos_error, unit) outcome \<times> PoS" where
  "RegisterValidator pos now address stake commission publicKey =
     (if stake < MinStakeAmount (config pos) then (Err ErrStakeTooLow, pos)
      else if MaxValidators (config pos) \<le> int (length (validators pos))
        then (Err ErrMaxValidatorsReached, pos)
      else if map_of (validators pos) address \<noteq> None then (Err ErrAlreadyRegistered, pos)
      else
        (let v = \<lparr>Address = address, Stake = stake, TotalDelegated = 0,
                   Commission = commission, Validator.Status = ValidatorStatusActive,
                   LastActive = now, TotalBlocks = 0, Validator.Rewards = 0,
                   PublicKey = publicKey\<rparr>
         in (Ok (), pos\<lparr>validators := AList.update address v (validators pos),
                          totalStake := totalStake pos + stake\<rparr>)))"

definition Delegate ::
  "PoS \<Rightarrow> int \<Rightarrow> Address \<Rightarrow> Address \<Rightarrow> int \<Rightarrow> (pos_error, unit) outcome \<times> PoS" where
  "Delegate pos now delegator val amount =
     (case map_of (validators pos) val of
        None \<Rightarrow> (Err ErrValidatorNotFound, pos)
      | Some v \<Rightarrow>
          if Validator.Status v \<noteq> ValidatorStatusActive then (Err ErrValidatorNotActive, pos)
          else
            (let delegation = \<lparr>Delegator = delegator, Validator = val, Amount = amount,
                                Delegation.Rewards = 0, StartTime = now, UnbondTime = 0,
                                Delegation.Status = DelegationStatusActive\<rparr>;
                 old = (case map_of (delegators pos) delegator of None \<Rightarrow> [] | Some ds \<Rightarrow> ds)
             in (Ok (),
                 pos\<lparr>delegators := AList.update delegator (old @ [delegation]) (delegators pos),
                     validators :=
                       AList.update val (v\<lparr>TotalDelegated := TotalDelegated v + amount\<rparr>)
                         (validators pos),
                     totalStake := totalStake pos + amount\<rparr>)))"

text \<open>
  The loop of \<open>Unbond\<close>: the first delegation to the validator that is Active is marked
  Unbonding; the result is the amount to remove (the smaller of the delegation's amount
  and the requested amount) and the list with that delegation updated.
\<close>

fun unbondLoop ::
  "int \<Rightarrow> Address \<Rightarrow> int \<Rightarrow> Delegation list \<Rightarrow> (int \<times> Delegation list) option" where
  "unbondLoop unbondTime val amount [] = None"
| "unbondLoop unbondTime val amount (d # ds) =
     (if Delegation.Validator d = val \<and> Delegation.Status d = DelegationStatusActive
      then Some (if amount < Amount d then amount else Amount d,
                 d\<lparr>Delegation.Status := DelegationStatusUnbonding, UnbondTime := unbondTime\<rparr> # ds)
      else (case unbondLoop unbondTime val amount ds of
              None \<Rightarrow> None
            | Some (a, ds') \<Rightarrow> Some (a, d # ds')))"

definition Unbond ::
  "PoS \<Rightarrow> int \<Rightarrow> Address \<Rightarrow> Address \<Rightarrow> int \<Rightarrow> (pos_error, unit) outcome \<times> PoS" where
  "Unbond pos now delegator val amount =
     (case map_of (delegators pos) delegator of
        None \<Rightarrow> (Err ErrNoDelegationsFound, pos)
      | Some delegations \<Rightarrow>
          (case unbondLoop (now + UnbondingPeriod (config pos)) val amount delegations of
             None \<Rightarrow> (Err ErrActiveDelegationNotFound, pos)
           | Some (unbondAmount, delegations') \<Rightarrow>
               (let pos1 = pos\<lparr>delegators := AList.update delegator delegations' (delegators pos)\<rparr>
                in case map_of (validators pos) val of
                     None \<Rightarrow> (Panic NilPointerDereference, pos1)
                   | Some v \<Rightarrow>
                       (Ok (),
                        pos1\<lparr>validators :=
                               AList.update val (v\<lparr>TotalDelegated := TotalDelegated v - unbondAmount\<rparr>)
                                 (validators pos),
                             totalStake := totalStake pos - unbondAmount\<rparr>))))"

text \<open>
  The loop of \<open>CompleteUnbonding\<close>: it stops at the first delegation to the validator
  that is Unbonding, with an error when \<open>now\<close> is before its \<open>UnbondTime\<close>, and otherwise
  marks it Completed and returns \<open>Amount + Rewards\<close>.
\<close>

fun completeLoop ::
  "int \<Rightarrow> Address \<Rightarrow> Delegation list \<Rightarrow> (pos_error, int) outcome \<times> Delegation list" where
  "completeLoop now val [] = (Err ErrUnbondingDelegationNotFound, [])"
| "completeLoop now val (d # ds) =
     (if Delegation.Validator d = val \<and> Delegation.Status d = DelegationStatusUnbonding
      then (if now < UnbondTime d then (Err ErrUnbondingPeriodNotCompleted, d # ds)
            else (Ok (Amount d + Delegation.Rewards d),
                  d\<lparr>Delegation.Status := DelegationStatusCompleted\<rparr> # ds))
      else (let (r, ds') = completeLoop now val ds in (r, d # ds')))"

definition CompleteUnbonding ::
  "PoS \<Rightarrow> int \<Rightarrow> Address \<Rightarrow> Address \<Rightarrow> (pos_error, int) outcome \<times> PoS" where
  "CompleteUnbonding pos now delegator val =
     (case map_of (delegators pos) delegator of
        None \<Rightarrow> (Err ErrNoDelegationsFound, pos)
      | Some delegations \<Rightarrow>
          (let (r, delegations') = completeLoop now val delegations
           in (r, pos\<lparr>delegators := AList.update delegator delegations' (delegators pos)\<rparr>)))"

text \<open>
  \<open>SelectValidator\<close>. The 32 bytes of \<open>rand.Read\<close>, read as a number by \<open>SetBytes\<close>, are
  the argument \<open>draw\<close>. The second loop walks the Active validators with their weights.
\<close>

definition getActiveValidators :: "PoS \<Rightarrow> Validator list" where
  "getActiveValidators pos =
     filter (\<lambda>v. Validator.Status v = ValidatorStatusActive) (map snd (validators pos))"

fun selectLoop :: "int \<Rightarrow> int \<Rightarrow> (Validator \<times> int) list \<Rightarrow> Address option" where
  "selectLoop randNum cumulative [] = None"
| "selectLoop randNum cumulative ((v, w) # rest) =
     (if randNum < cumulative + w then Some (Address v)
      else selectLoop randNum (cumulative + w) rest)"

definition SelectValidator :: "PoS \<Rightarrow> nat \<Rightarrow> uint64 \<Rightarrow> Address" where
  "SelectValidator pos draw slot =
     (let activeValidators = getActiveValidators pos in
      if length activeValidators = 0 then zeroAddress
      else
        (let weights = map (\<lambda>v. Stake v + TotalDelegated v) activeValidators;
             totalWeight = foldl (+) 0 weights
         in if totalWeight = 0 then zeroAddress
            else
              (case selectLoop (int draw mod \<bar>totalWeight\<bar>) 0 (zip activeValidators weights) of
                 Some a \<Rightarrow> a
               | None \<Rightarrow> Address (hd activeValidators))))"

definition PoS_ValidateBlock :: "Env \<Rightarrow> PoS \<Rightarrow> nat \<Rightarrow> Block \<Rightarrow> (pos_error, unit) outcome" where
  "PoS_ValidateBlock env pos draw block =
     (let expectedValidator = SelectValidator pos draw (big_Uint64 (Number (Header block))) in
      if BlockHeader.Validator (Header block) \<noteq> expectedValidator then Err ErrInvalidValidator
      else if length (Signature (Header block)) = 0 then Err ErrSignatureMissing
      else
        (case map_of (validators pos) (BlockHeader.Validator (Header block)) of
           None \<Rightarrow> Err ErrValidatorNotFound
         | Some v \<Rightarrow>
             (case PublicKey v of
                None \<Rightarrow> Panic NilPointerDereference
              | Some pk \<Rightarrow>
                  if \<not> verifyASN1 env pk (computeHash env (Header block)) (Signature (Header block))
                  then Err ErrInvalidBlockSignature
                  else Ok ())))"

text \<open>
  Reward distribution. \<open>commission.Div(commission, 10000)\<close> has a positive constant
  divisor, where the Euclidean quotient is \<open>div\<close>; the two other divisions go through
  \<open>big_Div\<close>. The inner loop looks the validator up by its \<open>Address\<close> field at each
  delegation it rewards.
\<close>

fun rewardDelegations ::
  "(Address \<times> Validator) list \<Rightarrow> Address \<Rightarrow> int \<Rightarrow> Delegation list \<Rightarrow> panic option \<times> Delegation list" where
  "rewardDelegations vs val reward [] = (None, [])"
| "rewardDelegations vs val reward (d # ds) =
     (if Delegation.Validator d = val \<and> Delegation.Status d = DelegationStatusActive
      then (case map_of vs val of
              None \<Rightarrow> (Some NilPointerDereference, d # ds)
            | Some v \<Rightarrow>
                (case big_Div (reward * Amount d) (TotalDelegated v) of
                   None \<Rightarrow> (Some DivisionByZero, d # ds)
                 | Some delegationReward \<Rightarrow>
                     (let (p, ds') = rewardDelegations vs val reward ds
                      in (p, d\<lparr>Delegation.Rewards := Delegation.Rewards d + delegationReward\<rparr> # ds'))))
      else (let (p, ds') = rewardDelegations vs val reward ds in (p, d # ds')))"

fun distributeLoop ::
  "(Address \<times> Validator) list \<Rightarrow> Address \<Rightarrow> int \<Rightarrow> (Address \<times> Delegation list) list
     \<Rightarrow> panic option \<times> (Address \<times> Delegation list) list" where
  "distributeLoop vs val reward [] = (None, [])"
| "distributeLoop vs val reward ((delegator, delegations) # rest) =
     (case rewardDelegations vs val reward delegations of
        (Some p, delegations') \<Rightarrow> (Some p, (delegator, delegations') # rest)
      | (None, delegations') \<Rightarrow>
          (let (p, rest') = distributeLoop vs val reward rest
           in (p, (delegator, delegations') # rest')))"

definition distributeDelegatorRewards ::
  "PoS \<Rightarrow> Address \<Rightarrow> int \<Rightarrow> (pos_error, unit) outcome \<times> PoS" where
  "distributeDelegatorRewards pos val reward =
     (let (p, ds) = distributeLoop (validators pos) val reward (delegators pos)
      in ((case p of None \<Rightarrow> Ok () | Some x \<Rightarrow> Panic x), pos\<lparr>delegators := ds\<rparr>))"

definition distributeRewards :: "PoS \<Rightarrow> Block \<Rightarrow> (pos_error, unit) outcome \<times> PoS" where
  "distributeRewards pos block =
     (case map_of (validators pos) (BlockHeader.Validator (Header block)) of
        None \<Rightarrow> (Panic NilPointerDereference, pos)
      | Some v \<Rightarrow>
          (let blockReward = RewardRate (config pos);
               commission = (blockReward * sint (Commission v)) div 10000
           in case big_Div (commission + blockReward * sint (big_Uint64 (Stake v)))
                     (Stake v + TotalDelegated v) of
                None \<Rightarrow> (Panic DivisionByZero, pos)
              | Some validatorReward \<Rightarrow>
                  (let pos1 = pos\<lparr>validators :=
                         AList.update (BlockHeader.Validator (Header block))
                           (v\<lparr>Validator.Rewards := Validator.Rewards v + validatorReward\<rparr>)
                           (validators pos)\<rparr>
                   in if 0 < TotalDelegated v
                      then (case big_Div
                                   (blockReward - commission
                                      - validatorReward * ((Stake v + TotalDelegated v) - Stake v))
                                   (TotalDelegated v) of
                              None \<Rightarrow> (Panic DivisionByZero, pos1)
                            | Some delegatorReward \<Rightarrow>
                                distributeDelegatorRewards pos1 (Address v) delegatorReward)
                      else (Ok (), pos1))))"

definition UpdateBlock :: "PoS \<Rightarrow> int \<Rightarrow> Block \<Rightarrow> (pos_error, unit) outcome \<times> PoS" where
  "UpdateBlock pos now block =
     (case map_of (validators pos) (BlockHeader.Validator (Header block)) of
        None \<Rightarrow> (Ok (), pos)
      | Some v \<Rightarrow>
          distributeRewards
            (pos\<lparr>validators :=
                   AList.update (BlockHeader.Validator (Header block))
                     (v\<lparr>LastActive := now, TotalBlocks := TotalBlocks v + 1\<rparr>) (validators pos)\<rparr>)
            block)"

definition Slash :: "PoS \<Rightarrow> Address \<Rightarrow> string \<Rightarrow> (pos_error, unit) outcome \<times> PoS" where
  "Slash pos val reason =
     (case map_of (validators pos) val of
        None \<Rightarrow> (Err ErrValidatorNotFound, pos)
      | Some v \<Rightarrow>
          if Validator.Status v = ValidatorStatusSlashed then (Err ErrAlreadySlashed, pos)
          else
            (let slashAmount = (SlashRate (config pos) * (Stake v + TotalDelegated v)) div 1000
             in (Ok (),
                 pos\<lparr>validators :=
                       AList.update val
                         (v\<lparr>Stake := Stake v - slashAmount,
                            Validator.Status := ValidatorStatusSlashed\<rparr>) (validators pos),
                     totalStake := totalStake pos - slashAmount\<rparr>)))"

text \<open>
  \<open>GetValidators\<close> sorts by \<open>Stake + TotalDelegated\<close>, largest first. \<open>sort.Slice\<close> is not
  stable; the model keeps ties in the order of the registry, one of the orders Go can give.
\<close>

definition GetValidators :: "PoS \<Rightarrow> Validator list" where
  "GetValidators pos = sort_key (\<lambda>v. - (Stake v + TotalDelegated v)) (map snd (validators pos))"

section \<open>The key-value store and core/state.go\<close>

text \<open>
  The store is LevelDB, opaque to the repository: get and put on byte strings. Each
  operation can fail with an I/O error. \<open>faults\<close> is the script of the store for the
  operations to come, one flag per operation (\<open>True\<close>: this operation fails); past its
  end the store works.
\<close>

datatype db_error = ErrNotFound | ErrIO

record DB =
  store :: "bytes \<rightharpoonup> bytes"
  faults :: "bool list"

definition db_fault :: "DB \<Rightarrow> bool \<times> DB" where
  "db_fault d = (case faults d of [] \<Rightarrow> (False, d) | f # fs \<Rightarrow> (f, d\<lparr>faults := fs\<rparr>))"

definition db_Get :: "DB \<Rightarrow> bytes \<Rightarrow> (db_error, bytes) outcome \<times> DB" where
  "db_Get d key =
     (let (failed, d') = db_fault d in
      if failed then (Err ErrIO, d')
      else (case store d' key of None \<Rightarrow> (Err ErrNotFound, d') | Some v \<Rightarrow> (Ok v, d')))"

definition db_Put :: "DB \<Rightarrow> bytes \<Rightarrow> bytes \<Rightarrow> db_error option \<times> DB" where
  "db_Put d key v =
     (let (failed, d') = db_fault d in
      if failed then (Some ErrIO, d') else (None, d'\<lparr>store := (store d')(key \<mapsto> v)\<rparr>))"

text \<open>
  \<open>x.Bytes()\<close> is the absolute value in big-endian bytes with no leading zero (empty for
  0); \<open>SetBytes\<close> reads big-endian bytes as a number that is not negative.
\<close>

fun nat_to_bytes :: "nat \<Rightarrow> bytes" where
  "nat_to_bytes n = (if n = 0 then [] else nat_to_bytes (n div 256) @ [of_nat (n mod 256)])"

declare nat_to_bytes.simps [simp del]

definition big_Bytes :: "int \<Rightarrow> bytes" where
  "big_Bytes x = nat_to_bytes (nat \<bar>x\<bar>)"

definition big_SetBytes :: "bytes \<Rightarrow> int" where
  "big_SetBytes bs = int (foldl (\<lambda>acc b. acc * 256 + unat b) 0 bs)"

definition BytesToHash :: "bytes \<Rightarrow> Hash" where
  "BytesToHash b =
     (let b' = (if 32 < length b then drop (length b - 32) b else b)
      in replicate (32 - length b') 0 @ b')"

definition HashToBig :: "Hash \<Rightarrow> int" where
  "HashToBig h = big_SetBytes h"

text \<open>
  \<open>State\<close>: the cache of accounts over the store. The cache and the storage of an
  account are Go maps, association lists here as for the registry.
\<close>

record Account =
  Nonce :: uint64
  Balance :: int
  CodeHash :: bytes
  Code :: bytes
  Storage :: "(Hash \<times> Hash) list"

record State =
  db :: DB
  cache :: "(Address \<times> Account) list"

definition GetAccount :: "State \<Rightarrow> Address \<Rightarrow> Account \<times> State" where
  "GetAccount s addr =
     (case map_of (cache s) addr of
        Some account \<Rightarrow> (account, s)
      | None \<Rightarrow>
          (let (r, d) = db_Get (db s) addr;
               account = \<lparr>Account.Nonce = 0,
                          Balance = (case r of Ok data \<Rightarrow> big_SetBytes data | _ \<Rightarrow> 0),
                          CodeHash = [], Code = [], Storage = []\<rparr>
           in (account, s\<lparr>db := d, cache := AList.update addr account (cache s)\<rparr>)))"

definition GetBalance :: "State \<Rightarrow> Address \<Rightarrow> int \<times> State" where
  "GetBalance s addr = (let (account, s') = GetAccount s addr in (Balance account, s'))"

text \<open>
  The mutex \<open>State.mu\<close> is a \<open>sync.RWMutex\<close>, which is not reentrant: \<open>Lock\<close> waits until
  nobody holds the mutex, \<open>RLock\<close> waits while a writer holds it. The model is sequential:
  one goroutine runs, so a lock that is not granted at once is never granted (\<open>None\<close>).
  Every method releases by \<open>defer\<close> what it took, so a method of \<open>State\<close> that is called
  from outside \<open>State\<close> finds the mutex \<open>Unlocked\<close>. \<open>GetAccount\<close> takes \<open>RLock\<close> and calls
  nothing that locks, and the getters on top of it take no lock of their own: there the
  pair of \<open>RLock\<close> and \<open>RUnlock\<close> changes nothing and is not written. The setters are
  another matter: each takes \<open>s.mu.Lock()\<close>
  and then calls \<open>s.GetAccount\<close>, whose \<open>RLock\<close> waits for the writer, the caller itself.
  So a setter never returns (\<open>None\<close>), and what is written after the call to
  \<open>GetAccount\<close> never runs. \<open>SetBalance\<close> and \<open>SetCode\<close>, which nothing modelled here
  calls, are written the same way. \<open>Commit\<close> takes \<open>Lock\<close> and calls nothing that locks.
  The other mutexes of the repository, those of \<open>PoS\<close>, \<open>EVM\<close> and \<open>Blockchain\<close>, are left
  out: of the methods modelled here, none that holds one of them for writing calls a
  method that takes it, and the one nested pair of read locks (\<open>ValidateBlock\<close> and
  \<open>SelectValidator\<close> of \<open>PoS\<close>) is granted when no writer waits.
\<close>

datatype RWMutex = Unlocked | RLocked nat | Locked

definition Lock :: "RWMutex \<Rightarrow> RWMutex option" where
  "Lock mu = (case mu of Unlocked \<Rightarrow> Some Locked | RLocked n \<Rightarrow> None | Locked \<Rightarrow> None)"

definition RLock :: "RWMutex \<Rightarrow> RWMutex option" where
  "RLock mu =
     (case mu of
        Unlocked \<Rightarrow> Some (RLocked 1)
      | RLocked n \<Rightarrow> Some (RLocked (n + 1))
      | Locked \<Rightarrow> None)"

text \<open>\<open>GetAccount\<close> as a caller reaches it that holds the mutex in the state \<open>mu\<close>.\<close>

definition GetAccount_holding :: "RWMutex \<Rightarrow> State \<Rightarrow> Address \<Rightarrow> (Account \<times> State) option" where
  "GetAccount_holding mu s addr =
     (case RLock mu of None \<Rightarrow> None | Some mu' \<Rightarrow> Some (GetAccount s addr))"

definition SetNonce :: "State \<Rightarrow> Address \<Rightarrow> uint64 \<Rightarrow> State option" where
  "SetNonce s addr nonce =
     (case Lock Unlocked of
        None \<Rightarrow> None
      | Some mu \<Rightarrow>
          (case GetAccount_holding mu s addr of
             None \<Rightarrow> None
           | Some (account, s') \<Rightarrow>
               Some (s'\<lparr>cache := AList.update addr (account\<lparr>Account.Nonce := nonce\<rparr>) (cache s')\<rparr>)))"

definition GetNonce :: "State \<Rightarrow> Address \<Rightarrow> uint64 \<times> State" where
  "GetNonce s addr = (let (account, s') = GetAccount s addr in (Account.Nonce account, s'))"

definition GetCode :: "State \<Rightarrow> Address \<Rightarrow> bytes \<times> State" where
  "GetCode s addr = (let (account, s') = GetAccount s addr in (Code account, s'))"

definition GetCodeHash :: "State \<Rightarrow> Address \<Rightarrow> bytes \<times> State" where
  "GetCodeHash s addr = (let (account, s') = GetAccount s addr in (CodeHash account, s'))"

definition SetState :: "State \<Rightarrow> Address \<Rightarrow> Hash \<Rightarrow> Hash \<Rightarrow> State option" where
  "SetState s addr key v =
     (case Lock Unlocked of
        None \<Rightarrow> None
      | Some mu \<Rightarrow>
          (case GetAccount_holding mu s addr of
             None \<Rightarrow> None
           | Some (account, s') \<Rightarrow>
               Some (s'\<lparr>cache :=
                        AList.update addr (account\<lparr>Storage := AList.update key v (Storage account)\<rparr>)
                          (cache s')\<rparr>)))"

definition GetState :: "State \<Rightarrow> Address \<Rightarrow> Hash \<Rightarrow> Hash \<times> State" where
  "GetState s addr key =
     (let (account, s') = GetAccount s addr
      in (case map_of (Storage account) key of Some v \<Rightarrow> (v, s') | None \<Rightarrow> (zeroHash, s')))"

fun commitStorage :: "DB \<Rightarrow> Address \<Rightarrow> (Hash \<times> Hash) list \<Rightarrow> db_error option \<times> DB" where
  "commitStorage d addr [] = (None, d)"
| "commitStorage d addr ((key, v) # rest) =
     (case db_Put d (addr @ key) v of
        (Some e, d') \<Rightarrow> (Some e, d')
      | (None, d') \<Rightarrow> commitStorage d' addr rest)"

fun commitAccounts :: "Env \<Rightarrow> DB \<Rightarrow> (Address \<times> Account) list \<Rightarrow> db_error option \<times> DB" where
  "commitAccounts env d [] = (None, d)"
| "commitAccounts env d ((addr, account) # rest) =
     (case db_Put d addr (big_Bytes (Balance account)) of
        (Some e, d1) \<Rightarrow> (Some e, d1)
      | (None, d1) \<Rightarrow>
          (case (if 0 < length (Code account)
                 then db_Put d1 (keccak256 env (Code account)) (Code account)
                 else (None, d1)) of
             (Some e, d2) \<Rightarrow> (Some e, d2)
           | (None, d2) \<Rightarrow>
               (case commitStorage d2 addr (Storage account) of
                  (Some e, d3) \<Rightarrow> (Some e, d3)
                | (None, d3) \<Rightarrow> commitAccounts env d3 rest)))"

definition Commit :: "Env \<Rightarrow> State \<Rightarrow> db_error option \<times> State" where
  "Commit env s =
     (case commitAccounts env (db s) (cache s) of
        (Some e, d) \<Rightarrow> (Some e, s\<lparr>db := d\<rparr>)
      | (None, d) \<Rightarrow> (None, s\<lparr>db := d, cache := []\<rparr>))"

section \<open>The bytecode interpreter\<close>

record core_Config =
  ChainID :: int
  NetworkID :: uint64
  BlockTime :: int
  GasLimit :: uint64
  MinGasPrice :: int
  MaxBlockSize :: uint64
  StakeAmount :: int
  ValidatorCount :: int

record Log =
  Address :: Address
  Topics :: "Hash list"
  Data :: bytes
  BlockNumber :: uint64
  TxHash :: Hash
  TxIndex :: "32 word"
  Index :: "32 word"
  Removed :: bool

record Receipt =
  TransactionHash :: Hash
  TransactionIndex :: uint64
  BlockHash :: Hash
  BlockNumber :: "int option"
  CumulativeGasUsed :: uint64
  GasUsed :: uint64
  ContractAddress :: Address
  Logs :: "Log list"
  Status :: uint64

record GasTable =
  Zero :: uint64
  Base :: uint64
  VeryLow :: uint64
  Low :: uint64
  Mid :: uint64
  High :: uint64
  ExtCode :: uint64
  Balance :: uint64
  SLoad :: uint64
  SStore :: uint64
  Create :: uint64
  Call :: uint64
  SelfDestruct :: uint64

record Context =
  Origin :: Address
  GasPrice :: int
  Coinbase :: Address
  Number :: int
  Timestamp :: uint64
  Difficulty :: int
  GasLimit :: uint64

record Contract =
  Caller :: Address
  Address :: Address
  Value :: int
  Input :: bytes
  Gas :: uint64
  Code :: bytes
  CodeHash :: bytes

record ExecutionResult =
  ReturnData :: bytes
  GasUsed :: uint64
  Logs :: "Log list"

datatype vm_error = ErrOutOfGas | ErrInvalidOpcode byte | ErrInsufficientPushData nat

text \<open>
  What an operation works on: the contract frame (\<open>Code\<close> and \<open>Gas\<close> change as the run
  goes), the operand stack (a slice, the top at its end), the memory, and the
  \<open>State\<close> of the executing \<open>EVM\<close>. \<open>opSload\<close> and \<open>opSstore\<close> write \<open>contract.EVM.State\<close>
  for it, through a field \<open>EVM\<close> that the struct \<open>Contract\<close> does not declare; the model
  gives them the one \<open>State\<close> there is, that of the \<open>EVM\<close> whose interpreter runs.
\<close>

record Machine =
  contract :: Contract
  stack :: "int list"
  memory :: bytes
  state :: State

definition STOP :: byte where "STOP = 0x00"
definition ADD :: byte where "ADD = 0x01"
definition MUL :: byte where "MUL = 0x02"
definition SUB :: byte where "SUB = 0x03"
definition DIV :: byte where "DIV = 0x04"
definition SDIV :: byte where "SDIV = 0x05"
definition MOD :: byte where "MOD = 0x06"
definition SMOD :: byte where "SMOD = 0x07"
definition ADDMOD :: byte where "ADDMOD = 0x08"
definition MULMOD :: byte where "MULMOD = 0x09"
definition EXP :: byte where "EXP = 0x0a"
definition SIGNEXTEND :: byte where "SIGNEXTEND = 0x0b"
definition LT :: byte where "LT = 0x10"
definition GT :: byte where "GT = 0x11"
definition SLT :: byte where "SLT = 0x12"
definition SGT :: byte where "SGT = 0x13"
definition EQ :: byte where "EQ = 0x14"
definition ISZERO :: byte where "ISZERO = 0x15"
definition AND :: byte where "AND = 0x16"
definition OR :: byte where "OR = 0x17"
definition XOR :: byte where "XOR = 0x18"
definition NOT :: byte where "NOT = 0x19"
definition BYTE :: byte where "BYTE = 0x1a"
definition SHL :: byte where "SHL = 0x1b"
definition SHR :: byte where "SHR = 0x1c"
definition SAR :: byte where "SAR = 0x1d"
definition POP :: byte where "POP = 0x50"
definition MLOAD :: byte where "MLOAD = 0x51"
definition MSTORE :: byte where "MSTORE = 0x52"
definition MSTORE8 :: byte where "MSTORE8 = 0x53"
definition SLOAD :: byte where "SLOAD = 0x54"
definition SSTORE :: byte where "SSTORE = 0x55"
definition JUMP :: byte where "JUMP = 0x56"
definition JUMPI :: byte where "JUMPI = 0x57"
definition PC :: byte where "PC = 0x58"
definition MSIZE :: byte where "MSIZE = 0x59"
definition GAS :: byte where "GAS = 0x5a"
definition JUMPDEST :: byte where "JUMPDEST = 0x5b"
definition PUSH1 :: byte where "PUSH1 = 0x60"
definition PUSH2 :: byte where "PUSH2 = 0x61"
definition PUSH32 :: byte where "PUSH32 = 0x7f"
definition DUP1 :: byte where "DUP1 = 0x80"
definition DUP16 :: byte where "DUP16 = 0x8f"
definition SWAP1 :: byte where "SWAP1 = 0x90"
definition SWAP16 :: byte where "SWAP16 = 0x9f"
definition RETURN :: byte where "RETURN = 0xf3"
definition REVERT :: byte where "REVERT = 0xfd"

lemmas opcode_defs =
  STOP_def ADD_def MUL_def SUB_def DIV_def SDIV_def MOD_def SMOD_def ADDMOD_def MULMOD_def
  EXP_def SIGNEXTEND_def LT_def GT_def SLT_def SGT_def EQ_def ISZERO_def AND_def OR_def
  XOR_def NOT_def BYTE_def SHL_def SHR_def SAR_def POP_def MLOAD_def MSTORE_def MSTORE8_def
  SLOAD_def SSTORE_def JUMP_def JUMPI_def PC_def MSIZE_def GAS_def JUMPDEST_def PUSH1_def
  PUSH2_def PUSH32_def DUP1_def DUP16_def SWAP1_def SWAP16_def RETURN_def REVERT_def

subsection \<open>Stack and memory\<close>

definition push :: "int \<Rightarrow> int list \<Rightarrow> int list" where
  "push d s = s @ [d]"

definition pop :: "int list \<Rightarrow> int \<times> int list" where
  "pop s = (if length s = 0 then (0, s) else (last s, butlast s))"

definition peek :: "int list \<Rightarrow> int" where
  "peek s = (if length s = 0 then 0 else last s)"

text \<open>
  \<open>Memory.Set\<close>: \<open>end := offset + size\<close> wraps at 64 bits; the store grows to \<open>end\<close> when
  it is shorter, by \<open>make([]byte, end - len)\<close>, which panics (\<open>makeslice: len out of
  range\<close>) when that \<open>uint64\<close> length is not in the range of \<open>int\<close>, that is from \<open>2^63\<close>
  on; \<open>m.store[offset:]\<close> panics when \<open>offset\<close> is past the length (it can be, after a
  wrap); \<open>copy\<close> writes as many bytes of \<open>value\<close> as fit up to the end of the store,
  whatever \<open>size\<close> is. A growth within the range of \<open>int\<close> is taken to be allocated: how
  much less than that a machine allocates is not a matter of the program.
\<close>

definition Memory_Set :: "bytes \<Rightarrow> uint64 \<Rightarrow> uint64 \<Rightarrow> bytes \<Rightarrow> panic + bytes" where
  "Memory_Set store0 offset sz v =
     (let end = offset + sz in
      if length store0 < unat end \<and> 2 ^ 63 \<le> unat end - length store0
      then Inl MakesliceLenOutOfRange
      else
        (let store1 = (if length store0 < unat end
                       then store0 @ replicate (unat end - length store0) 0 else store0)
         in if length store1 < unat offset then Inl SliceBoundsOutOfRange
            else (let n = min (length store1 - unat offset) (length v)
                  in Inr (take (unat offset) store1 @ take n v @ drop (unat offset + n) store1))))"

definition Memory_Get :: "bytes \<Rightarrow> uint64 \<Rightarrow> uint64 \<Rightarrow> bytes" where
  "Memory_Get store0 offset sz =
     (let end0 = offset + sz;
          end = (if length store0 < unat end0 then length store0 else unat end0)
      in if end \<le> unat offset then replicate (unat sz) 0
         else (let chunk = take (unat sz) (take (end - unat offset) (drop (unat offset) store0))
               in chunk @ replicate (unat sz - length chunk) 0))"

subsection \<open>Operations\<close>

type_synonym operation = "Machine \<Rightarrow> Context \<Rightarrow> (vm_error, unit) outcome \<times> Machine"

definition opAdd :: operation where
  "opAdd m ctx =
     (let (x, s1) = pop (stack m); (y, s2) = pop s1 in (Ok (), m\<lparr>stack := push (x + y) s2\<rparr>))"

definition opMul :: operation where
  "opMul m ctx =
     (let (x, s1) = pop (stack m); (y, s2) = pop s1 in (Ok (), m\<lparr>stack := push (x * y) s2\<rparr>))"

definition opSub :: operation where
  "opSub m ctx =
     (let (x, s1) = pop (stack m); (y, s2) = pop s1 in (Ok (), m\<lparr>stack := push (x - y) s2\<rparr>))"

definition opDiv :: operation where
  "opDiv m ctx =
     (let (x, s1) = pop (stack m); (y, s2) = pop s1
      in if sgn y = 0 then (Ok (), m\<lparr>stack := push 0 s2\<rparr>)
         else (case big_Div x y of
                 None \<Rightarrow> (Panic DivisionByZero, m\<lparr>stack := s2\<rparr>)
               | Some q \<Rightarrow> (Ok (), m\<lparr>stack := push q s2\<rparr>)))"

definition opLt :: operation where
  "opLt m ctx =
     (let (x, s1) = pop (stack m); (y, s2) = pop s1
      in (Ok (), m\<lparr>stack := push (if x < y then 1 else 0) s2\<rparr>))"

definition opGt :: operation where
  "opGt m ctx =
     (let (x, s1) = pop (stack m); (y, s2) = pop s1
      in (Ok (), m\<lparr>stack := push (if y < x then 1 else 0) s2\<rparr>))"

definition opEq :: operation where
  "opEq m ctx =
     (let (x, s1) = pop (stack m); (y, s2) = pop s1
      in (Ok (), m\<lparr>stack := push (if x = y then 1 else 0) s2\<rparr>))"

definition opIszero :: operation where
  "opIszero m ctx =
     (let (x, s1) = pop (stack m)
      in (Ok (), m\<lparr>stack := push (if sgn x = 0 then 1 else 0) s1\<rparr>))"

definition opAnd :: operation where
  "opAnd m ctx =
     (let (x, s1) = pop (stack m); (y, s2) = pop s1 in (Ok (), m\<lparr>stack := push (and x y) s2\<rparr>))"

definition opOr :: operation where
  "opOr m ctx =
     (let (x, s1) = pop (stack m); (y, s2) = pop s1 in (Ok (), m\<lparr>stack := push (or x y) s2\<rparr>))"

definition opXor :: operation where
  "opXor m ctx =
     (let (x, s1) = pop (stack m); (y, s2) = pop s1 in (Ok (), m\<lparr>stack := push (xor x y) s2\<rparr>))"

definition opNot :: operation where
  "opNot m ctx = (let (x, s1) = pop (stack m) in (Ok (), m\<lparr>stack := push (not x) s1\<rparr>))"

definition opPop :: operation where
  "opPop m ctx = (let (x, s1) = pop (stack m) in (Ok (), m\<lparr>stack := s1\<rparr>))"

definition opDup1 :: operation where
  "opDup1 m ctx = (Ok (), m\<lparr>stack := push (peek (stack m)) (stack m)\<rparr>)"

definition opSwap1 :: operation where
  "opSwap1 m ctx =
     (let (x, s1) = pop (stack m); (y, s2) = pop s1 in (Ok (), m\<lparr>stack := push y (push x s2)\<rparr>))"

definition opMload :: operation where
  "opMload m ctx =
     (let (x, s1) = pop (stack m);
          data = Memory_Get (memory m) (big_Uint64 x) 32
      in (Ok (), m\<lparr>stack := push (big_SetBytes data) s1\<rparr>))"

definition opMstore :: operation where
  "opMstore m ctx =
     (let (offset, s1) = pop (stack m); (v, s2) = pop s1
      in case Memory_Set (memory m) (big_Uint64 offset) 32 (big_Bytes v) of
           Inl p \<Rightarrow> (Panic p, m\<lparr>stack := s2\<rparr>)
         | Inr mem \<Rightarrow> (Ok (), m\<lparr>stack := s2, memory := mem\<rparr>))"

text \<open>
  \<open>value.Bytes()[:1]\<close> in \<open>opMstore8\<close>: the bytes of 0 are an empty slice of capacity
  0, so the slice expression panics; otherwise it is the most significant byte.
\<close>

definition opMstore8 :: operation where
  "opMstore8 m ctx =
     (let (offset, s1) = pop (stack m); (v, s2) = pop s1
      in if length (big_Bytes v) < 1 then (Panic SliceBoundsOutOfRange, m\<lparr>stack := s2\<rparr>)
         else (case Memory_Set (memory m) (big_Uint64 offset) 1 (take 1 (big_Bytes v)) of
                 Inl p \<Rightarrow> (Panic p, m\<lparr>stack := s2\<rparr>)
               | Inr mem \<Rightarrow> (Ok (), m\<lparr>stack := s2, memory := mem\<rparr>)))"

definition opSload :: operation where
  "opSload m ctx =
     (let (x, s1) = pop (stack m);
          (v, st) = GetState (state m) (Contract.Address (contract m)) (BytesToHash (big_Bytes x))
      in (Ok (), m\<lparr>stack := push (HashToBig v) s1, state := st\<rparr>))"

definition opSstore :: operation where
  "opSstore m ctx =
     (let (x, s1) = pop (stack m); (v, s2) = pop s1
      in case SetState (state m) (Contract.Address (contract m))
                (BytesToHash (big_Bytes x)) (BytesToHash (big_Bytes v)) of
           None \<Rightarrow> (Panic Deadlock, m\<lparr>stack := s2\<rparr>)
         | Some st \<Rightarrow> (Ok (), m\<lparr>stack := s2, state := st\<rparr>))"

definition opJump :: operation where
  "opJump m ctx = (Ok (), m)"

definition opJumpi :: operation where
  "opJumpi m ctx = (Ok (), m)"

definition opPc :: operation where
  "opPc m ctx = (Ok (), m\<lparr>stack := push (int (length (Code (contract m)))) (stack m)\<rparr>)"

definition opMsize :: operation where
  "opMsize m ctx = (Ok (), m\<lparr>stack := push (int (length (memory m))) (stack m)\<rparr>)"

definition opGas :: operation where
  "opGas m ctx = (Ok (), m\<lparr>stack := push (sint (Gas (contract m))) (stack m)\<rparr>)"

definition makePush :: "nat \<Rightarrow> operation" where
  "makePush sz m ctx =
     (if length (Code (contract m)) < sz then (Err (ErrInsufficientPushData sz), m)
      else (Ok (),
            m\<lparr>contract := (contract m)\<lparr>Code := drop sz (Code (contract m))\<rparr>,
              stack := push (big_SetBytes (take sz (Code (contract m)))) (stack m)\<rparr>))"

text \<open>
  The jump table: 256 entries, those that \<open>newJumpTable\<close> does not assign have no
  \<open>execute\<close> function (\<open>None\<close>). It assigns none to \<open>STOP\<close>, \<open>RETURN\<close> and \<open>REVERT\<close>.
\<close>

definition newJumpTable :: "byte \<Rightarrow> operation option" where
  "newJumpTable opcode =
     (if opcode = ADD then Some opAdd
      else if opcode = MUL then Some opMul
      else if opcode = SUB then Some opSub
      else if opcode = DIV then Some opDiv
      else if opcode = LT then Some opLt
      else if opcode = GT then Some opGt
      else if opcode = EQ then Some opEq
      else if opcode = ISZERO then Some opIszero
      else if opcode = AND then Some opAnd
      else if opcode = OR then Some opOr
      else if opcode = XOR then Some opXor
      else if opcode = NOT then Some opNot
      else if opcode = POP then Some opPop
      else if opcode = DUP1 then Some opDup1
      else if opcode = SWAP1 then Some opSwap1
      else if opcode = MLOAD then Some opMload
      else if opcode = MSTORE then Some opMstore
      else if opcode = MSTORE8 then Some opMstore8
      else if opcode = SLOAD then Some opSload
      else if opcode = SSTORE then Some opSstore
      else if opcode = JUMP then Some opJump
      else if opcode = JUMPI then Some opJumpi
      else if opcode = PC then Some opPc
      else if opcode = MSIZE then Some opMsize
      else if opcode = GAS then Some opGas
      else if PUSH1 \<le> opcode \<and> opcode \<le> PUSH1 + 31
        then Some (makePush (unat (opcode - PUSH1) + 1))
      else None)"

definition defaultGasTable :: GasTable where
  "defaultGasTable =
     \<lparr>Zero = 0, Base = 2, VeryLow = 3, Low = 5, Mid = 8, High = 10, ExtCode = 700,
      GasTable.Balance = 700, SLoad = 800, SStore = 20000, Create = 32000, Call = 700,
      SelfDestruct = 5000\<rparr>"

text \<open>
  \<open>getGasCost\<close>. The switch names \<open>PUSH3\<close> to \<open>PUSH31\<close>, \<open>DUP2\<close> to \<open>DUP15\<close> and \<open>SWAP2\<close> to
  \<open>SWAP15\<close>, which the file does not declare; they are the opcodes between the declared
  ends of each range, as the loop of \<open>newJumpTable\<close> has them (\<open>PUSH1 + i\<close>).
\<close>

definition getGasCost :: "GasTable \<Rightarrow> byte \<Rightarrow> uint64" where
  "getGasCost gt opcode =
     (if opcode = STOP then Zero gt
      else if opcode \<in> set [ADD, SUB, MUL, DIV, SDIV, MOD, SMOD, ADDMOD, MULMOD] then VeryLow gt
      else if opcode \<in> set [LT, GT, SLT, SGT, EQ, ISZERO] then VeryLow gt
      else if opcode \<in> set [AND, OR, XOR, NOT, BYTE] then VeryLow gt
      else if opcode \<in> set [SHL, SHR, SAR] then VeryLow gt
      else if opcode = POP then Base gt
      else if opcode \<in> set [MLOAD, MSTORE, MSTORE8] then VeryLow gt
      else if opcode = SLOAD then SLoad gt
      else if opcode = SSTORE then SStore gt
      else if opcode \<in> set [JUMP, JUMPI, PC, MSIZE, GAS] then Base gt
      else if PUSH1 \<le> opcode \<and> opcode \<le> PUSH1 + 7 then VeryLow gt
      else if PUSH1 + 8 \<le> opcode \<and> opcode \<le> PUSH1 + 15 then Low gt
      else if PUSH1 + 16 \<le> opcode \<and> opcode \<le> PUSH1 + 23 then Mid gt
      else if PUSH1 + 24 \<le> opcode \<and> opcode \<le> PUSH32 then High gt
      else if DUP1 \<le> opcode \<and> opcode \<le> DUP1 + 7 then VeryLow gt
      else if DUP1 + 8 \<le> opcode \<and> opcode \<le> DUP16 then Low gt
      else if SWAP1 \<le> opcode \<and> opcode \<le> SWAP1 + 7 then VeryLow gt
      else if SWAP1 + 8 \<le> opcode \<and> opcode \<le> SWAP16 then Low gt
      else if opcode = RETURN then Zero gt
      else if opcode = REVERT then Zero gt
      else Base gt)"

subsection \<open>The interpreter loop\<close>

text \<open>
  \<open>Interpreter.evm\<close> is a \<open>*EVM\<close>, of which \<open>Run\<close> reads the gas table only
  (\<open>in.evm.gasTable\<close>): the field holds that gas table, \<open>None\<close> for a nil pointer.
  \<open>NewEVM\<close> builds its interpreter with \<open>NewInterpreter(nil)\<close>.
\<close>


record Interpreter =
  evm :: "GasTable option"

record EVM =
  state :: State
  config :: core_Config
  interpreter :: Interpreter
  gasTable :: GasTable

definition NewInterpreter :: "GasTable option \<Rightarrow> Interpreter" where
  "NewInterpreter e = \<lparr>evm = e\<rparr>"

definition NewEVM :: "State \<Rightarrow> core_Config \<Rightarrow> EVM" where
  "NewEVM st cfg =
     \<lparr>EVM.state = st, config = cfg, interpreter = NewInterpreter None, gasTable = defaultGasTable\<rparr>"

text \<open>
  No operation of the jump table touches \<open>Gas\<close>, lengthens the code or reports
  out-of-gas itself. The first fact carries the gas bound, the second the termination
  of the loop.
\<close>

lemma makePush_frame:
  assumes "makePush sz m ctx = (r, m')"
  shows "Gas (contract m') = Gas (contract m)
         \<and> length (Code (contract m')) \<le> length (Code (contract m))
         \<and> set (Code (contract m')) \<subseteq> set (Code (contract m))
         \<and> r \<noteq> Err ErrOutOfGas"
  using assms set_drop_subset [of sz "Code (contract m)"]
  by (auto simp: makePush_def split: if_splits)

lemma newJumpTable_frame:
  assumes "newJumpTable opcode = Some execute" and "execute m ctx = (r, m')"
  shows "Gas (contract m') = Gas (contract m)
         \<and> length (Code (contract m')) \<le> length (Code (contract m))
         \<and> set (Code (contract m')) \<subseteq> set (Code (contract m))
         \<and> r \<noteq> Err ErrOutOfGas"
proof (cases "PUSH1 \<le> opcode \<and> opcode \<le> PUSH1 + 31")
  case True
  with assms(1) have "execute = makePush (unat (opcode - PUSH1) + 1)"
    by (auto simp: newJumpTable_def opcode_defs word_le_nat_alt split: if_splits)
  with assms(2) makePush_frame show ?thesis by blast
next
  case False
  with assms show ?thesis
    by (auto simp: newJumpTable_def opAdd_def opMul_def opSub_def opDiv_def opLt_def opGt_def
        opEq_def opIszero_def opAnd_def opOr_def opXor_def opNot_def opPop_def opDup1_def
        opSwap1_def opMload_def opMstore_def opMstore8_def opSload_def opSstore_def opJump_def
        opJumpi_def opPc_def opMsize_def opGas_def Let_def
        split: if_splits prod.splits option.splits sum.splits)
qed

text \<open>
  The body of the loop of \<open>Run\<close>: leave the loop when no code is left; otherwise take
  the opcode off the front of the code, look its cost up, fail with out-of-gas before
  anything else when the gas is short, otherwise pay and execute. It ends the run
  (\<open>Exit\<close>, with what \<open>Run\<close> then returns) or goes round again (\<open>Next\<close>).
\<close>

datatype loop_step = Next Machine | Exit "(vm_error, unit) outcome" Machine

definition loopBody :: "GasTable option \<Rightarrow> Context \<Rightarrow> Machine \<Rightarrow> loop_step" where
  "loopBody gt ctx m =
     (if length (Code (contract m)) = 0 then Exit (Ok ()) m
      else
        (let opcode = hd (Code (contract m));
             m1 = m\<lparr>contract := (contract m)\<lparr>Code := tl (Code (contract m))\<rparr>\<rparr>
         in case gt of
              None \<Rightarrow> Exit (Panic NilPointerDereference) m1
            | Some g \<Rightarrow>
                (let gasCost = getGasCost g opcode
                 in if Gas (contract m1) < gasCost then Exit (Err ErrOutOfGas) m1
                    else
                      (let m2 = m1\<lparr>contract := (contract m1)\<lparr>Gas := Gas (contract m1) - gasCost\<rparr>\<rparr>
                       in case newJumpTable opcode of
                            None \<Rightarrow> Exit (Err (ErrInvalidOpcode opcode)) m2
                          | Some execute \<Rightarrow>
                              (case execute m2 ctx of
                                 (Ok u, m3) \<Rightarrow>
                                   if opcode = STOP \<or> opcode = RETURN then Exit (Ok ()) m3
                                   else Next m3
                               | (Err e, m3) \<Rightarrow> Exit (Err e) m3
                               | (Panic p, m3) \<Rightarrow> Exit (Panic p) m3)))))"

lemma loopBody_Next:
  assumes "loopBody gt ctx m = Next m'"
  shows "\<exists>g opcode rest execute.
           gt = Some g \<and> Code (contract m) = opcode # rest
           \<and> \<not> Gas (contract m) < getGasCost g opcode
           \<and> newJumpTable opcode = Some execute
           \<and> execute (m\<lparr>contract := (contract m)\<lparr>Code := rest,
                            Gas := Gas (contract m) - getGasCost g opcode\<rparr>\<rparr>) ctx = (Ok (), m')"
proof (cases "Code (contract m)")
  case Nil
  with assms show ?thesis by (simp add: loopBody_def)
next
  case (Cons opcode rest)
  with assms show ?thesis
    by (auto simp: loopBody_def Let_def
        split: option.splits if_splits prod.splits outcome.splits)
qed

lemma loopBody_shorter:
  assumes "loopBody gt ctx m = Next m'"
  shows "length (Code (contract m')) < length (Code (contract m))"
proof -
  from loopBody_Next [OF assms] obtain g opcode rest execute where
    c: "Code (contract m) = opcode # rest" and t: "newJumpTable opcode = Some execute"
    and e: "execute (m\<lparr>contract := (contract m)\<lparr>Code := rest,
                         Gas := Gas (contract m) - getGasCost g opcode\<rparr>\<rparr>) ctx = (Ok (), m')"
    by blast
  from newJumpTable_frame [OF t e] c show ?thesis by simp
qed

function runLoop :: "GasTable option \<Rightarrow> Context \<Rightarrow> Machine \<Rightarrow> (vm_error, unit) outcome \<times> Machine" where
  "runLoop gt ctx m =
     (case loopBody gt ctx m of
        Exit r m' \<Rightarrow> (r, m')
      | Next m' \<Rightarrow> runLoop gt ctx m')"
  by pat_completeness auto
termination
proof (relation "measure (\<lambda>(gt, ctx, m). length (Code (contract m)))", goal_cases)
  case 1
  show ?case by simp
next
  case (2 gt ctx m m')
  then show ?case using loopBody_shorter [of gt ctx m m'] by simp
qed

declare runLoop.simps [simp del]

definition Run ::
  "Interpreter \<Rightarrow> Contract \<Rightarrow> Context \<Rightarrow> State
     \<Rightarrow> (vm_error, ExecutionResult) outcome \<times> Contract \<times> State" where
  "Run i c ctx st =
     (case runLoop (evm i) ctx \<lparr>contract = c, stack = [], memory = [], state = st\<rparr> of
        (Ok u, m) \<Rightarrow>
          (Ok \<lparr>ReturnData = memory m, ExecutionResult.GasUsed = Gas (contract m),
               ExecutionResult.Logs = []\<rparr>, contract m, Machine.state m)
      | (Err e, m) \<Rightarrow> (Err e, contract m, Machine.state m)
      | (Panic p, m) \<Rightarrow> (Panic p, contract m, Machine.state m))"

definition createContext :: "EVM \<Rightarrow> Transaction \<Rightarrow> Context" where
  "createContext e tx =
     \<lparr>Origin = From tx, Context.GasPrice = Transaction.GasPrice tx, Context.Coinbase = zeroAddress,
      Context.Number = 0, Context.Timestamp = 0, Context.Difficulty = 1,
      Context.GasLimit = Transaction.GasLimit tx\<rparr>"

text \<open>
  \<open>ExecuteTransaction\<close> returns a receipt and an error (both, when the run fails), or
  does not return. The composite literal of the frame evaluates \<open>*tx.To\<close> before it reads
  the state. After a run that succeeds comes \<open>SetNonce\<close>, and the \<open>return\<close> after it is
  reached only if \<open>SetNonce\<close> returns.
\<close>

datatype tx_result = Returned Receipt "vm_error option" | Panicked panic

definition ExecuteTransaction :: "EVM \<Rightarrow> Transaction \<Rightarrow> tx_result \<times> EVM" where
  "ExecuteTransaction e tx =
     (let ctx = createContext e tx in
      case To tx of
        None \<Rightarrow> (Panicked NilPointerDereference, e)
      | Some to \<Rightarrow>
          (let (code, st1) = GetCode (EVM.state e) to;
               (codeHash, st2) = GetCodeHash st1 to;
               c = \<lparr>Caller = From tx, Contract.Address = to, Contract.Value = Transaction.Value tx,
                    Input = Transaction.Data tx, Gas = Transaction.GasLimit tx, Code = code,
                    CodeHash = codeHash\<rparr>
           in case Run (interpreter e) c ctx st2 of
                (Err err, c', st3) \<Rightarrow>
                  (Returned
                     \<lparr>TransactionHash = Transaction.Hash tx, TransactionIndex = 0,
                      BlockHash = zeroHash, Receipt.BlockNumber = None, CumulativeGasUsed = 0,
                      Receipt.GasUsed = Transaction.GasLimit tx - Gas c',
                      ContractAddress = zeroAddress, Receipt.Logs = [], Receipt.Status = 0\<rparr>
                     (Some err),
                   e\<lparr>EVM.state := st3\<rparr>)
              | (Panic p, c', st3) \<Rightarrow> (Panicked p, e\<lparr>EVM.state := st3\<rparr>)
              | (Ok result, c', st3) \<Rightarrow>
                  (let receipt =
                         \<lparr>TransactionHash = Transaction.Hash tx, TransactionIndex = 0,
                          BlockHash = zeroHash, Receipt.BlockNumber = None, CumulativeGasUsed = 0,
                          Receipt.GasUsed = Transaction.GasLimit tx - Gas c',
                          ContractAddress = zeroAddress,
                          Receipt.Logs = ExecutionResult.Logs result, Receipt.Status = 1\<rparr>;
                       (nonce, st4) = GetNonce st3 (From tx)
                   in case SetNonce st4 (From tx) (nonce + 1) of
                        None \<Rightarrow> (Panicked Deadlock, e\<lparr>EVM.state := st4\<rparr>)
                      | Some st5 \<Rightarrow> (Returned receipt None, e\<lparr>EVM.state := st5\<rparr>))))"

section \<open>The blockchain orchestrator\<close>

text \<open>
  \<open>NewBlockchain\<close> gives one LevelDB handle to the chain and to its \<open>State\<close>, and that
  \<open>State\<close> to the \<open>EVM\<close>: \<open>bc.db\<close>, \<open>bc.state.db\<close> and \<open>bc.vm.state.db\<close> are one object.
  The model keeps the one copy where the nesting puts it, inside the \<open>State\<close> of the
  \<open>EVM\<close>; \<open>chain_state\<close> and \<open>chain_db\<close> read it and \<open>with_state\<close> and \<open>with_db\<close> replace it.
  The block cache is a Go map that is only looked up and stored into.
\<close>

datatype chain_error =
    ErrBlockNotFound
  | ErrInvalidBlock
  | ErrInvalidChain
  | ErrInsufficientBalance
  | ErrInvalidSignature
  | ErrInvalidNonce uint64 uint64
  | ErrGasPriceTooLow
  | ErrDatabase db_error
  | ErrDeserializeBlock
  | ErrSerializeBlock
  | ErrWriteBlockData db_error
  | ErrUpdateCurrentBlock db_error
  | ErrParentBlockNotFound chain_error
  | ErrConsensusValidationFailed pos_error
  | ErrInvalidTransaction Hash chain_error
  | ErrExecuteTransaction Hash vm_error
  | ErrExecuteTransactions chain_error
  | ErrCommitState db_error
  | ErrWriteBlock chain_error

record Blockchain =
  config :: core_Config
  genesis :: "Block option"
  currentBlock :: Block
  vm :: EVM
  consensus :: PoS
  blockCache :: "Hash \<rightharpoonup> Block"
  txPool :: TxPool

definition chain_state :: "Blockchain \<Rightarrow> State" where
  "chain_state bc = EVM.state (vm bc)"

definition with_state :: "State \<Rightarrow> Blockchain \<Rightarrow> Blockchain" where
  "with_state st bc = bc\<lparr>vm := (vm bc)\<lparr>EVM.state := st\<rparr>\<rparr>"

definition chain_db :: "Blockchain \<Rightarrow> DB" where
  "chain_db bc = db (chain_state bc)"

definition with_db :: "DB \<Rightarrow> Blockchain \<Rightarrow> Blockchain" where
  "with_db d bc = with_state ((chain_state bc)\<lparr>db := d\<rparr>) bc"

text \<open>The key \<open>[]byte("currentBlock")\<close>.\<close>

definition currentBlockKey :: bytes where
  "currentBlockKey = [0x63, 0x75, 0x72, 0x72, 0x65, 0x6e, 0x74, 0x42, 0x6c, 0x6f, 0x63, 0x6b]"

definition ValidateTransaction ::
  "Env \<Rightarrow> Blockchain \<Rightarrow> Transaction \<Rightarrow> chain_error option \<times> Blockchain" where
  "ValidateTransaction env bc tx =
     (if \<not> verifySignature env (From tx) (Transaction.Hash tx) (V tx) (R tx) (S tx)
      then (Some ErrInvalidSignature, bc)
      else
        (let (account, st) = GetAccount (chain_state bc) (From tx);
             bc1 = with_state st bc
         in if Transaction.Nonce tx \<noteq> Account.Nonce account
            then (Some (ErrInvalidNonce (Account.Nonce account) (Transaction.Nonce tx)), bc1)
            else
              (let cost = Transaction.GasPrice tx * sint (Transaction.GasLimit tx)
                            + Transaction.Value tx
               in if Account.Balance account < cost then (Some ErrInsufficientBalance, bc1)
                  else if Transaction.GasPrice tx < MinGasPrice (Blockchain.config bc)
                    then (Some ErrGasPriceTooLow, bc1)
                  else (None, bc1))))"

text \<open>
  \<open>AddTransaction\<close>. The send on \<open>newTxCh\<close>, which makes the background worker add the
  transaction to the pool once more, is left out.
\<close>

definition AddTransaction ::
  "Env \<Rightarrow> Blockchain \<Rightarrow> Transaction \<Rightarrow> chain_error option \<times> Blockchain" where
  "AddTransaction env bc tx =
     (case ValidateTransaction env bc tx of
        (Some err, bc1) \<Rightarrow> (Some err, bc1)
      | (None, bc1) \<Rightarrow> (None, bc1\<lparr>txPool := txPoolAdd env tx (txPool bc1)\<rparr>))"

definition GetBlockByHash ::
  "Env \<Rightarrow> Blockchain \<Rightarrow> Hash \<Rightarrow> (chain_error, Block) outcome \<times> Blockchain" where
  "GetBlockByHash env bc hash =
     (case blockCache bc hash of
        Some block \<Rightarrow> (Ok block, bc)
      | None \<Rightarrow>
          (let (r, d) = db_Get (chain_db bc) hash;
               bc1 = with_db d bc
           in case r of
                Err e \<Rightarrow>
                  (if e = ErrNotFound then (Err ErrBlockNotFound, bc1)
                   else (Err (ErrDatabase e), bc1))
              | Panic p \<Rightarrow> (Panic p, bc1)
              | Ok data \<Rightarrow>
                  (case decodeBlock env data of
                     None \<Rightarrow> (Err ErrDeserializeBlock, bc1)
                   | Some block \<Rightarrow>
                       (Ok block, bc1\<lparr>blockCache := (blockCache bc1)(hash \<mapsto> block)\<rparr>))))"

definition writeBlock :: "Env \<Rightarrow> Blockchain \<Rightarrow> Block \<Rightarrow> chain_error option \<times> Blockchain" where
  "writeBlock env bc block =
     (case encodeBlock env block of
        None \<Rightarrow> (Some ErrSerializeBlock, bc)
      | Some data \<Rightarrow>
          (case db_Put (chain_db bc) (Block.Hash block) data of
             (Some e, d1) \<Rightarrow> (Some (ErrWriteBlockData e), with_db d1 bc)
           | (None, d1) \<Rightarrow>
               (case db_Put d1 currentBlockKey (Block.Hash block) of
                  (Some e, d2) \<Rightarrow> (Some (ErrUpdateCurrentBlock e), with_db d2 bc)
                | (None, d2) \<Rightarrow>
                    (None,
                     (with_db d2 bc)\<lparr>blockCache := (blockCache bc)(Block.Hash block \<mapsto> block)\<rparr>))))"

fun validateTransactions ::
  "Env \<Rightarrow> Blockchain \<Rightarrow> Transaction list \<Rightarrow> chain_error option \<times> Blockchain" where
  "validateTransactions env bc [] = (None, bc)"
| "validateTransactions env bc (tx # txs) =
     (case ValidateTransaction env bc tx of
        (Some err, bc1) \<Rightarrow> (Some (ErrInvalidTransaction (Transaction.Hash tx) err), bc1)
      | (None, bc1) \<Rightarrow> validateTransactions env bc1 txs)"

text \<open>
  \<open>ValidateBlock\<close> of the orchestrator. \<open>draw\<close> is the random number that the consensus
  engine's \<open>SelectValidator\<close> reads during the call.
\<close>

definition ValidateBlock ::
  "Env \<Rightarrow> Blockchain \<Rightarrow> nat \<Rightarrow> Block \<Rightarrow> (chain_error, unit) outcome \<times> Blockchain" where
  "ValidateBlock env bc draw block =
     (if Block.Hash block \<noteq> computeHash env (Header block) then (Err ErrInvalidBlock, bc)
      else
        (let (parent, bc1) =
               (if 0 < BlockHeader.Number (Header block)
                then (case GetBlockByHash env bc (ParentHash (Header block)) of
                        (Ok b, bc') \<Rightarrow> (Ok (), bc')
                      | (Err e, bc') \<Rightarrow> (Err (ErrParentBlockNotFound e), bc')
                      | (Panic p, bc') \<Rightarrow> (Panic p, bc'))
                else (Ok (), bc))
         in case parent of
              Err e \<Rightarrow> (Err e, bc1)
            | Panic p \<Rightarrow> (Panic p, bc1)
            | Ok u \<Rightarrow>
                (case PoS_ValidateBlock env (consensus bc1) draw block of
                   Err e \<Rightarrow> (Err (ErrConsensusValidationFailed e), bc1)
                 | Panic p \<Rightarrow> (Panic p, bc1)
                 | Ok u \<Rightarrow>
                     (case validateTransactions env bc1 (Transactions block) of
                        (Some err, bc2) \<Rightarrow> (Err err, bc2)
                      | (None, bc2) \<Rightarrow> (Ok (), bc2)))))"

fun executeLoop ::
  "EVM \<Rightarrow> Receipt list \<Rightarrow> Transaction list \<Rightarrow> (chain_error, Receipt list) outcome \<times> EVM" where
  "executeLoop e receipts [] = (Ok receipts, e)"
| "executeLoop e receipts (tx # txs) =
     (case ExecuteTransaction e tx of
        (Panicked p, e') \<Rightarrow> (Panic p, e')
      | (Returned receipt (Some err), e') \<Rightarrow>
          (Err (ErrExecuteTransaction (Transaction.Hash tx) err), e')
      | (Returned receipt None, e') \<Rightarrow> executeLoop e' (receipts @ [receipt]) txs)"

definition ExecuteTransactions ::
  "Blockchain \<Rightarrow> Transaction list \<Rightarrow> (chain_error, Receipt list) outcome \<times> Blockchain" where
  "ExecuteTransactions bc txs =
     (let (r, e) = executeLoop (vm bc) [] txs in (r, bc\<lparr>vm := e\<rparr>))"

text \<open>
  \<open>ProcessBlock\<close>: validate, execute, commit the state, write the block and the pointer,
  then set \<open>currentBlock\<close> and tell the consensus engine. \<open>now\<close> is the clock that
  \<open>UpdateBlock\<close> reads.
\<close>

definition ProcessBlock ::
  "Env \<Rightarrow> Blockchain \<Rightarrow> int \<Rightarrow> nat \<Rightarrow> Block \<Rightarrow> (chain_error, unit) outcome \<times> Blockchain" where
  "ProcessBlock env bc now draw block =
     (case ValidateBlock env bc draw block of
        (Err e, bc1) \<Rightarrow> (Err e, bc1)
      | (Panic p, bc1) \<Rightarrow> (Panic p, bc1)
      | (Ok u, bc1) \<Rightarrow>
          (case ExecuteTransactions bc1 (Transactions block) of
             (Err e, bc2) \<Rightarrow> (Err (ErrExecuteTransactions e), bc2)
           | (Panic p, bc2) \<Rightarrow> (Panic p, bc2)
           | (Ok receipts, bc2) \<Rightarrow>
               (case Commit env (chain_state bc2) of
                  (Some e, st) \<Rightarrow> (Err (ErrCommitState e), with_state st bc2)
                | (None, st) \<Rightarrow>
                    (case writeBlock env (with_state st bc2) block of
                       (Some e, bc4) \<Rightarrow> (Err (ErrWriteBlock e), bc4)
                     | (None, bc4) \<Rightarrow>
                         (let bc5 = bc4\<lparr>currentBlock := block\<rparr>;
                              (r, pos) = UpdateBlock (consensus bc5) now block
                          in case r of
                               Panic p \<Rightarrow> (Panic p, bc5\<lparr>consensus := pos\<rparr>)
                             | _ \<Rightarrow> (Ok (), bc5\<lparr>consensus := pos\<rparr>))))))"

section \<open>Example data\<close>

text \<open>
  The constants of the examples that follow the theorems: addresses, a registry in several
  states, an interpreter frame, and a small chain with its environment. In the environment
  every signature verifies, the hash of a header is its number and extra data padded to 32
  bytes, and the encoding of a block is its hash followed by its extra data.
\<close>

definition w_V :: Address where "w_V = replicate 20 1"
definition w_D :: Address where "w_D = replicate 20 2"

definition w_unbonding :: Delegation where
  "w_unbonding = \<lparr>Delegator = w_D, Validator = w_V, Amount = 1000, Delegation.Rewards = 0,
      StartTime = 0, UnbondTime = 604800000000000, Delegation.Status = DelegationStatusUnbonding\<rparr>"

definition w_pos :: PoS where
  "w_pos = snd (Unbond (snd (Delegate (snd (RegisterValidator (NewPoS 1000000 100) 0 w_V 1000000 1000 None)) 0 w_D w_V 1000)) 0 w_D w_V 1000)"

definition cex_full :: PoS where
  "cex_full = snd (Slash (snd (RegisterValidator (NewPoS 1000000 1) 0 w_V 1000000 1000 None)) w_V ''double signing'')"

definition w_single :: PoS where
  "w_single = snd (RegisterValidator (NewPoS 1000000 100) 0 w_V 1000000 1000 None)"

definition w_single_validator :: Validator where
  "w_single_validator = \<lparr>Validator.Address = w_V, Stake = 1000000, TotalDelegated = 0, Commission = 1000,
      Validator.Status = ValidatorStatusActive, LastActive = 0, TotalBlocks = 0,
      Validator.Rewards = 0, PublicKey = None\<rparr>"

definition cex_zero_weight :: PoS where
  "cex_zero_weight = snd (RegisterValidator (NewPoS 0 100) 0 w_V 0 1000 None)"

definition cex_negative_delegation :: PoS where
  "cex_negative_delegation =
     snd (Delegate (snd (RegisterValidator (NewPoS 1000000 100) 0 w_V 1000000 1000 None))
            0 w_D w_V (- 1000000))"

definition w_contract_addr :: Address where "w_contract_addr = replicate 20 3"

definition w_config :: core_Config where
  "w_config = \<lparr>ChainID = 1337, NetworkID = 1, BlockTime = 6000000000, core_Config.GasLimit = 30000000,
      MinGasPrice = 1000000000, MaxBlockSize = 1048576, StakeAmount = 1000000, ValidatorCount = 100\<rparr>"

definition w_evm :: EVM where
  "w_evm = \<lparr>EVM.state = \<lparr>db = \<lparr>store = Map.empty, faults = []\<rparr>,
                cache = [(w_contract_addr,
                          \<lparr>Account.Nonce = 0, Balance = 0, CodeHash = [],
                           Code = [PUSH1, 1, PUSH1, 2, ADD], Storage = []\<rparr>)]\<rparr>,
            config = w_config, interpreter = NewInterpreter (Some defaultGasTable),
            gasTable = defaultGasTable\<rparr>"

definition w_tx :: Transaction where
  "w_tx = \<lparr>Transaction.Nonce = 0, Transaction.GasPrice = 1000000000, Transaction.GasLimit = 7,
      To = Some w_contract_addr, Transaction.Value = 0, Transaction.Data = [], V = 0, R = 0, S = 0,
      Transaction.Hash = zeroHash, From = w_D\<rparr>"


definition w_machine :: Machine where
  "w_machine =
     \<lparr>contract = \<lparr>Caller = w_D, Contract.Address = w_contract_addr, Contract.Value = 0, Input = [],
                   Gas = 10, Code = [DIV], CodeHash = []\<rparr>,
      stack = [], memory = [], state = EVM.state w_evm\<rparr>"

definition example_env :: Env where
  "example_env =
     \<lparr>computeHash = (\<lambda>h. BytesToHash (of_int (BlockHeader.Number h) # ExtraData h)),
      encodeBlock = (\<lambda>b. Some (Block.Hash b @ ExtraData (Header b))),
      decodeBlock = (\<lambda>data. None),
      verifySignature = (\<lambda>a h v r s. True),
      verifyASN1 = (\<lambda>pk h sig. True),
      keccak256 = BytesToHash,
      txPoolAdd = (\<lambda>tx p. p\<lparr>pending := AList.update (Transaction.Hash tx) tx (pending p)\<rparr>)\<rparr>"

definition example_header :: "int \<Rightarrow> Hash \<Rightarrow> bytes \<Rightarrow> BlockHeader" where
  "example_header n parent extra =
     \<lparr>ParentHash = parent, BlockHeader.Coinbase = w_V, StateRoot = zeroHash, TxRoot = zeroHash,
      ReceiptRoot = zeroHash, BlockHeader.Difficulty = 1, BlockHeader.Number = n,
      BlockHeader.GasLimit = 30000000, BlockHeader.GasUsed = 0, BlockHeader.Timestamp = 0,
      ExtraData = extra, MixHash = zeroHash, BlockHeader.Nonce = replicate 8 0,
      BlockHeader.Validator = w_V, Signature = [1]\<rparr>"

definition example_block :: "int \<Rightarrow> Hash \<Rightarrow> bytes \<Rightarrow> Transaction list \<Rightarrow> Block" where
  "example_block n parent extra txs =
     \<lparr>Header = example_header n parent extra, Transactions = txs,
      Block.Hash = computeHash example_env (example_header n parent extra), Size = 0\<rparr>"

definition ex_genesis :: Block where
  "ex_genesis = example_block 0 zeroHash [0] []"

definition ex_block1 :: Block where
  "ex_block1 = example_block 1 (Block.Hash ex_genesis) [1] []"

definition ex_fork :: Block where
  "ex_fork = example_block 1 (Block.Hash ex_genesis) [2] []"

definition ex_pos :: PoS where
  "ex_pos = snd (RegisterValidator (NewPoS 1000000 100) 0 w_V 1000000 1000 (Some [4]))"

definition ex_pool :: TxPool where
  "ex_pool = \<lparr>pending = [], queued = [], all = [], maxSize = 10000\<rparr>"

definition ex_chain :: Blockchain where
  "ex_chain =
     \<lparr>Blockchain.config = w_config, genesis = Some ex_genesis, currentBlock = ex_block1,
      vm = NewEVM \<lparr>db = \<lparr>store = Map.empty, faults = []\<rparr>, cache = []\<rparr> w_config,
      consensus = ex_pos,
      blockCache = [Block.Hash ex_genesis \<mapsto> ex_genesis, Block.Hash ex_block1 \<mapsto> ex_block1],
      txPool = ex_pool\<rparr>"

definition wrap_tx :: Transaction where
  "wrap_tx = \<lparr>Transaction.Nonce = 0, Transaction.GasPrice = 1000000000,
      Transaction.GasLimit = 9223372036854775808,
      To = Some w_contract_addr, Transaction.Value = 0, Transaction.Data = [], V = 0, R = 0, S = 0,
      Transaction.Hash = zeroHash, From = w_D\<rparr>"







section \<open>Properties of the consensus engine\<close>

subsection \<open>Unbonding\<close>

lemma completeLoop_skip:
  "\<forall>x\<in>set pre. \<not> (Delegation.Validator x = val \<and> Delegation.Status x = DelegationStatusUnbonding)
   \<Longrightarrow> completeLoop now val (pre @ rest) =
       (fst (completeLoop now val rest), pre @ snd (completeLoop now val rest))"
  by (induction pre) (auto simp: case_prod_beta)

lemma completeLoop_none:
  "\<forall>x\<in>set ds. \<not> (Delegation.Validator x = val \<and> Delegation.Status x = DelegationStatusUnbonding)
   \<Longrightarrow> completeLoop now val ds = (Err ErrUnbondingDelegationNotFound, ds)"
  using completeLoop_skip [of ds val now "[]"] by simp

text \<open>
  Claim C5. \<open>CompleteUnbonding(delegator, validator)\<close> addresses the first delegation of
  the delegator to the validator that is Unbonding. It returns an error, and changes
  nothing, when the delegator has no delegations, when none of them is an Unbonding
  delegation to that validator, and when \<open>now\<close> is before the \<open>UnbondTime\<close> of the one it
  addresses. From \<open>UnbondTime\<close> on it succeeds: it returns \<open>Amount + Rewards\<close> and marks that
  delegation Completed. Any later call passes over the Completed delegation and only
  looks at the delegations after it, so the same delegation is never paid out twice; when
  no other Unbonding delegation to the validator is left, the later call fails.
\<close>

theorem CompleteUnbonding_timing:
  "(map_of (delegators pos) delegator = None \<longrightarrow>
      CompleteUnbonding pos now delegator val = (Err ErrNoDelegationsFound, pos))
   \<and> (\<forall>ds. map_of (delegators pos) delegator = Some ds
          \<and> (\<forall>x\<in>set ds. \<not> (Delegation.Validator x = val \<and> Delegation.Status x = DelegationStatusUnbonding))
        \<longrightarrow> CompleteUnbonding pos now delegator val = (Err ErrUnbondingDelegationNotFound, pos))
   \<and> (\<forall>pre d post.
         map_of (delegators pos) delegator = Some (pre @ d # post)
         \<and> (\<forall>x\<in>set pre. \<not> (Delegation.Validator x = val \<and> Delegation.Status x = DelegationStatusUnbonding))
         \<and> Delegation.Validator d = val \<and> Delegation.Status d = DelegationStatusUnbonding
        \<longrightarrow>
         (now < UnbondTime d \<longrightarrow>
            CompleteUnbonding pos now delegator val = (Err ErrUnbondingPeriodNotCompleted, pos))
         \<and> (UnbondTime d \<le> now \<longrightarrow>
              (let done = pos\<lparr>delegators :=
                     AList.update delegator
                       (pre @ d\<lparr>Delegation.Status := DelegationStatusCompleted\<rparr> # post) (delegators pos)\<rparr>
               in CompleteUnbonding pos now delegator val = (Ok (Amount d + Delegation.Rewards d), done)
                  \<and> (\<forall>later.
                        CompleteUnbonding done later delegator val =
                          (fst (completeLoop later val post),
                           done\<lparr>delegators :=
                             AList.update delegator
                               (pre @ d\<lparr>Delegation.Status := DelegationStatusCompleted\<rparr>
                                  # snd (completeLoop later val post)) (delegators pos)\<rparr>))
                  \<and> (\<forall>later.
                        (\<forall>x\<in>set post. \<not> (Delegation.Validator x = val \<and> Delegation.Status x = DelegationStatusUnbonding))
                        \<longrightarrow> CompleteUnbonding done later delegator val =
                              (Err ErrUnbondingDelegationNotFound, done)))))"
proof (intro conjI allI impI)
  assume "map_of (delegators pos) delegator = None"
  then show "CompleteUnbonding pos now delegator val = (Err ErrNoDelegationsFound, pos)"
    by (simp add: CompleteUnbonding_def)
next
  fix ds
  assume a: "map_of (delegators pos) delegator = Some ds
          \<and> (\<forall>x\<in>set ds. \<not> (Delegation.Validator x = val \<and> Delegation.Status x = DelegationStatusUnbonding))"
  then show "CompleteUnbonding pos now delegator val = (Err ErrUnbondingDelegationNotFound, pos)"
    by (simp add: CompleteUnbonding_def completeLoop_none update_triv)
next
  fix pre d post
  assume a: "map_of (delegators pos) delegator = Some (pre @ d # post)
         \<and> (\<forall>x\<in>set pre. \<not> (Delegation.Validator x = val \<and> Delegation.Status x = DelegationStatusUnbonding))
         \<and> Delegation.Validator d = val \<and> Delegation.Status d = DelegationStatusUnbonding"
  assume "now < UnbondTime d"
  with a show "CompleteUnbonding pos now delegator val = (Err ErrUnbondingPeriodNotCompleted, pos)"
    by (simp add: CompleteUnbonding_def completeLoop_skip update_triv)
next
  fix pre d post
  assume a: "map_of (delegators pos) delegator = Some (pre @ d # post)
         \<and> (\<forall>x\<in>set pre. \<not> (Delegation.Validator x = val \<and> Delegation.Status x = DelegationStatusUnbonding))
         \<and> Delegation.Validator d = val \<and> Delegation.Status d = DelegationStatusUnbonding"
  assume t: "UnbondTime d \<le> now"
  let ?d' = "d\<lparr>Delegation.Status := DelegationStatusCompleted\<rparr>"
  let ?done = "pos\<lparr>delegators := AList.update delegator (pre @ ?d' # post) (delegators pos)\<rparr>"
  have first: "CompleteUnbonding pos now delegator val = (Ok (Amount d + Delegation.Rewards d), ?done)"
    using a t by (simp add: CompleteUnbonding_def completeLoop_skip)
  have pre': "\<forall>x\<in>set (pre @ [?d']). \<not> (Delegation.Validator x = val \<and> Delegation.Status x = DelegationStatusUnbonding)"
    using a by simp
  have second: "CompleteUnbonding ?done later delegator val =
          (fst (completeLoop later val post),
           ?done\<lparr>delegators := AList.update delegator (pre @ ?d' # snd (completeLoop later val post)) (delegators pos)\<rparr>)"
    for later
    using completeLoop_skip [OF pre', of later post]
    by (simp add: CompleteUnbonding_def update_conv' case_prod_beta)
  have third: "CompleteUnbonding ?done later delegator val = (Err ErrUnbondingDelegationNotFound, ?done)"
    if "\<forall>x\<in>set post. \<not> (Delegation.Validator x = val \<and> Delegation.Status x = DelegationStatusUnbonding)"
    for later
    using second [of later] completeLoop_none [OF that, of later] by simp
  show "let done = ?done
        in CompleteUnbonding pos now delegator val = (Ok (Amount d + Delegation.Rewards d), done)
                  \<and> (\<forall>later.
                        CompleteUnbonding done later delegator val =
                          (fst (completeLoop later val post),
                           done\<lparr>delegators :=
                             AList.update delegator
                               (pre @ d\<lparr>Delegation.Status := DelegationStatusCompleted\<rparr>
                                  # snd (completeLoop later val post)) (delegators pos)\<rparr>))
                  \<and> (\<forall>later.
                        (\<forall>x\<in>set post. \<not> (Delegation.Validator x = val \<and> Delegation.Status x = DelegationStatusUnbonding))
                        \<longrightarrow> CompleteUnbonding done later delegator val =
                              (Err ErrUnbondingDelegationNotFound, done))"
    unfolding Let_def using first second third by blast
qed

text \<open>
  The witness: a validator registers, a delegator delegates 1000 and unbonds at time 0;
  the unbonding period is seven days (604800000000000 ns).
\<close>

lemma w_pos_delegators: "delegators w_pos = [(w_D, [w_unbonding])]"
  by (simp add: w_pos_def w_unbonding_def NewPoS_def RegisterValidator_def Delegate_def Unbond_def w_V_def w_D_def)

theorem CompleteUnbonding_timing_witness:
  "CompleteUnbonding w_pos 604799999999999 w_D w_V = (Err ErrUnbondingPeriodNotCompleted, w_pos)
   \<and> CompleteUnbonding w_pos 604800000000000 w_D w_V =
       (Ok 1000, w_pos\<lparr>delegators := [(w_D, [w_unbonding\<lparr>Delegation.Status := DelegationStatusCompleted\<rparr>])]\<rparr>)
   \<and> CompleteUnbonding
         (w_pos\<lparr>delegators := [(w_D, [w_unbonding\<lparr>Delegation.Status := DelegationStatusCompleted\<rparr>])]\<rparr>)
         604800000000001 w_D w_V =
       (Err ErrUnbondingDelegationNotFound,
        w_pos\<lparr>delegators := [(w_D, [w_unbonding\<lparr>Delegation.Status := DelegationStatusCompleted\<rparr>])]\<rparr>)"
proof -
  have h: "map_of (delegators w_pos) w_D = Some ([] @ w_unbonding # [])
         \<and> (\<forall>x\<in>set []. \<not> (Delegation.Validator x = w_V \<and> Delegation.Status x = DelegationStatusUnbonding))
         \<and> Delegation.Validator w_unbonding = w_V \<and> Delegation.Status w_unbonding = DelegationStatusUnbonding"
    by (simp add: w_pos_delegators w_unbonding_def)
  have early: "(604799999999999::int) < UnbondTime w_unbonding"
    and late: "UnbondTime w_unbonding \<le> (604800000000000::int)"
    by (simp_all add: w_unbonding_def)
  note main = CompleteUnbonding_timing [THEN conjunct2, THEN conjunct2, rule_format, OF h]
  from main [of 604799999999999, THEN conjunct1, rule_format, OF early]
       main [of 604800000000000, THEN conjunct2, rule_format, OF late]
  show ?thesis
    by (simp add: Let_def w_pos_delegators w_unbonding_def)
qed

subsection \<open>Registration\<close>

lemma update_absent: "map_of al k = None \<Longrightarrow> AList.update k v al = al @ [(k, v)]"
  by (induction al) (auto split: if_splits)

text \<open>
  Claim C6, as the code has it. \<open>RegisterValidator\<close> fails exactly when the stake is below
  \<open>MinStakeAmount\<close>, or the registry already holds \<open>MaxValidators\<close> validators of any status
  (\<open>len(pos.validators)\<close> counts Slashed validators too), or the address is already
  registered. A rejected call returns an error and changes nothing, so \<open>GetValidators\<close>
  returns what it returned before, and an address that was not registered before the
  rejected call is not in it. On success the registry gains one validator: Active, with the
  given stake, zero \<open>TotalDelegated\<close>, \<open>TotalBlocks\<close> and \<open>Rewards\<close>; \<open>totalStake\<close> grows by the
  stake.
\<close>

theorem RegisterValidator_capacity:
  "(fst (RegisterValidator pos now a stake c pk) \<noteq> Ok () \<longleftrightarrow>
      stake < MinStakeAmount (PoS.config pos)
      \<or> MaxValidators (PoS.config pos) \<le> int (length (validators pos))
      \<or> a \<in> fst ` set (validators pos))
   \<and> (fst (RegisterValidator pos now a stake c pk) \<noteq> Ok () \<longrightarrow>
        (\<exists>e. fst (RegisterValidator pos now a stake c pk) = Err e)
        \<and> snd (RegisterValidator pos now a stake c pk) = pos
        \<and> GetValidators (snd (RegisterValidator pos now a stake c pk)) = GetValidators pos)
   \<and> (fst (RegisterValidator pos now a stake c pk) \<noteq> Ok ()
        \<and> a \<notin> fst ` set (validators pos)
        \<and> (\<forall>kv\<in>set (validators pos). Validator.Address (snd kv) = fst kv) \<longrightarrow>
        a \<notin> Validator.Address ` set (GetValidators (snd (RegisterValidator pos now a stake c pk))))
   \<and> (fst (RegisterValidator pos now a stake c pk) = Ok () \<longrightarrow>
        snd (RegisterValidator pos now a stake c pk) =
          pos\<lparr>validators := validators pos @
                 [(a, \<lparr>Validator.Address = a, Stake = stake, TotalDelegated = 0, Commission = c,
                       Validator.Status = ValidatorStatusActive, LastActive = now,
                       TotalBlocks = 0, Validator.Rewards = 0, PublicKey = pk\<rparr>)],
               totalStake := totalStake pos + stake\<rparr>)"
proof -
  have k: "(map_of (validators pos) a \<noteq> None) = (a \<in> fst ` set (validators pos))"
    by (simp add: map_of_eq_None_iff)
  have g: "a \<notin> fst ` set (validators pos) \<Longrightarrow> (\<forall>kv\<in>set (validators pos). Validator.Address (snd kv) = fst kv)
     \<Longrightarrow> a \<notin> Validator.Address ` set (GetValidators pos)"
    by (force simp: GetValidators_def)
  show ?thesis
    using k g by (auto simp: RegisterValidator_def Let_def update_absent)
qed

text \<open>
  An instance: a registry that holds one validator, and a second address that registers
  first with a stake below the minimum, then with the minimum.
\<close>

theorem RegisterValidator_capacity_witness:
  "fst (RegisterValidator w_single 0 w_D 999999 1000 None) = Err ErrStakeTooLow
   \<and> w_D \<notin> Validator.Address ` set (GetValidators (snd (RegisterValidator w_single 0 w_D 999999 1000 None)))
   \<and> fst (RegisterValidator w_single 0 w_D 1000000 1000 None) = Ok ()
   \<and> totalStake (snd (RegisterValidator w_single 0 w_D 1000000 1000 None)) = 2000000
   \<and> map (\<lambda>v. (Validator.Address v, Stake v, Validator.Status v))
        (GetValidators (snd (RegisterValidator w_single 0 w_D 1000000 1000 None)))
      = [(w_V, 1000000, ValidatorStatusActive), (w_D, 1000000, ValidatorStatusActive)]"
proof -
  have inv: "\<forall>kv\<in>set (validators w_single). Validator.Address (snd kv) = fst kv"
    and new: "w_D \<notin> fst ` set (validators w_single)"
    by (simp_all add: w_single_def NewPoS_def RegisterValidator_def w_V_def w_D_def)
  have low: "fst (RegisterValidator w_single 0 w_D 999999 1000 None) = Err ErrStakeTooLow"
    by (simp add: w_single_def NewPoS_def RegisterValidator_def)
  have pre: "fst (RegisterValidator w_single 0 w_D 999999 1000 None) \<noteq> Ok ()
        \<and> w_D \<notin> fst ` set (validators w_single)
        \<and> (\<forall>kv\<in>set (validators w_single). Validator.Address (snd kv) = fst kv)"
    using low inv new by simp
  have absent: "w_D \<notin> Validator.Address `
      set (GetValidators (snd (RegisterValidator w_single 0 w_D 999999 1000 None)))"
    by (rule RegisterValidator_capacity [of w_single 0 w_D 999999 1000 None,
          THEN conjunct2, THEN conjunct2, THEN conjunct1, rule_format, OF pre])
  have ok: "fst (RegisterValidator w_single 0 w_D 1000000 1000 None) = Ok ()"
    by (simp add: w_single_def NewPoS_def RegisterValidator_def w_V_def w_D_def)
  from RegisterValidator_capacity [of w_single 0 w_D 1000000 1000 None] ok
  have "snd (RegisterValidator w_single 0 w_D 1000000 1000 None) =
          w_single\<lparr>validators := validators w_single @
                 [(w_D, \<lparr>Validator.Address = w_D, Stake = 1000000, TotalDelegated = 0,
                         Commission = 1000, Validator.Status = ValidatorStatusActive,
                         LastActive = 0, TotalBlocks = 0, Validator.Rewards = 0,
                         PublicKey = None\<rparr>)],
               totalStake := totalStake w_single + 1000000\<rparr>"
    by simp
  then have "totalStake (snd (RegisterValidator w_single 0 w_D 1000000 1000 None)) = 2000000"
    and "map (\<lambda>v. (Validator.Address v, Stake v, Validator.Status v))
        (GetValidators (snd (RegisterValidator w_single 0 w_D 1000000 1000 None)))
      = [(w_V, 1000000, ValidatorStatusActive), (w_D, 1000000, ValidatorStatusActive)]"
    by (simp_all add: GetValidators_def w_single_def NewPoS_def RegisterValidator_def)
  with low absent ok show ?thesis by simp
qed

text \<open>
  The claim as stated speaks of the set of Active validators being at capacity. With
  \<open>MaxValidators = 1\<close>, one validator registered and then slashed, no validator is Active,
  and still a registration with the minimum stake from a new address is rejected.
\<close>

theorem RegisterValidator_capacity_counterexample:
  "fst (RegisterValidator cex_full 0 w_D 1000000 1000 None) = Err ErrMaxValidatorsReached
   \<and> MinStakeAmount (PoS.config cex_full) = 1000000
   \<and> map_of (validators cex_full) w_D = None
   \<and> getActiveValidators cex_full = []
   \<and> MaxValidators (PoS.config cex_full) = 1"
  by (simp add: cex_full_def NewPoS_def RegisterValidator_def Slash_def getActiveValidators_def w_V_def w_D_def)

subsection \<open>Selection\<close>

lemma selectLoop_member:
  "selectLoop randNum cumulative xs = Some a \<Longrightarrow> \<exists>vw\<in>set xs. Validator.Address (fst vw) = a"
proof (induction xs arbitrary: cumulative)
  case Nil
  then show ?case by simp
next
  case (Cons p xs)
  obtain v w where p: "p = (v, w)" by (cases p)
  show ?case
  proof (cases "randNum < cumulative + w")
    case True
    with Cons.prems p show ?thesis by auto
  next
    case False
    with Cons.prems p have "selectLoop randNum (cumulative + w) xs = Some a" by simp
    from Cons.IH [OF this] show ?thesis by auto
  qed
qed

lemma getActiveValidators_set:
  "v \<in> set (getActiveValidators pos) \<Longrightarrow>
     \<exists>kv\<in>set (validators pos). snd kv = v \<and> Validator.Status v = ValidatorStatusActive"
  by (auto simp: getActiveValidators_def)

text \<open>
  Claim C7, as the code has it. For every registry and every draw, \<open>SelectValidator\<close>
  returns the address of an Active validator, or the zero address; it returns the zero
  address for lack of a choice only when no validator is Active or when the weights of the
  Active validators sum to zero (the guard \<open>totalWeight == 0\<close>). When exactly one validator
  is Active and its weight \<open>Stake + TotalDelegated\<close> is not zero, its address is returned
  for every draw.
\<close>

theorem SelectValidator_active:
  "((\<exists>kv\<in>set (validators pos).
        Validator.Status (snd kv) = ValidatorStatusActive
        \<and> Validator.Address (snd kv) = SelectValidator pos draw slot)
    \<or> (SelectValidator pos draw slot = zeroAddress
        \<and> (getActiveValidators pos = []
           \<or> foldl (+) 0 (map (\<lambda>v. Stake v + TotalDelegated v) (getActiveValidators pos)) = 0)))
   \<and> (\<forall>v. getActiveValidators pos = [v] \<and> Stake v + TotalDelegated v \<noteq> 0 \<longrightarrow>
          SelectValidator pos draw slot = Validator.Address v)"
proof (intro conjI allI impI)
  let ?act = "getActiveValidators pos"
  let ?ws = "map (\<lambda>v. Stake v + TotalDelegated v) ?act"
  show "(\<exists>kv\<in>set (validators pos).
        Validator.Status (snd kv) = ValidatorStatusActive
        \<and> Validator.Address (snd kv) = SelectValidator pos draw slot)
    \<or> (SelectValidator pos draw slot = zeroAddress
        \<and> (?act = [] \<or> foldl (+) 0 ?ws = 0))"
  proof (cases "?act = [] \<or> foldl (+) 0 ?ws = 0")
    case True
    then show ?thesis by (auto simp: SelectValidator_def Let_def)
  next
    case False
    have "\<exists>v\<in>set ?act. Validator.Address v = SelectValidator pos draw slot"
    proof (cases "selectLoop (int draw mod \<bar>foldl (+) 0 ?ws\<bar>) 0 (zip ?act ?ws)")
      case None
      with False show ?thesis by (auto simp: SelectValidator_def Let_def)
    next
      case (Some a)
      from selectLoop_member [OF Some] obtain vw where "vw \<in> set (zip ?act ?ws)" "Validator.Address (fst vw) = a"
        by blast
      then have "fst vw \<in> set ?act"
        using set_zip_leftD [of "fst vw" "snd vw" ?act ?ws] by simp
      with Some False \<open>Validator.Address (fst vw) = a\<close> show ?thesis
        by (auto simp: SelectValidator_def Let_def)
    qed
    then show ?thesis using getActiveValidators_set by blast
  qed
next
  fix v
  assume "getActiveValidators pos = [v] \<and> Stake v + TotalDelegated v \<noteq> 0"
  then show "SelectValidator pos draw slot = Validator.Address v"
    by (simp add: SelectValidator_def Let_def)
qed

theorem SelectValidator_active_witness:
  "getActiveValidators w_single = [w_single_validator]
   \<and> SelectValidator w_single 123456789 7 = w_V"
proof -
  have h: "getActiveValidators w_single = [w_single_validator]
      \<and> Stake w_single_validator + TotalDelegated w_single_validator \<noteq> 0"
    by (simp add: w_single_def w_single_validator_def getActiveValidators_def NewPoS_def
        RegisterValidator_def)
  from SelectValidator_active [of w_single 123456789 7, THEN conjunct2, rule_format, OF h] h
  show ?thesis by (simp add: w_single_validator_def)
qed

text \<open>
  The claim as stated fails where the only Active validator has weight zero: with a
  minimum stake of 0, a validator registered with stake 0 is Active, and \<open>SelectValidator\<close>
  returns the zero address, which is not its address.
\<close>

theorem SelectValidator_active_counterexample:
  "map (\<lambda>v. (Validator.Address v, Validator.Status v)) (getActiveValidators cex_zero_weight)
     = [(w_V, ValidatorStatusActive)]
   \<and> SelectValidator cex_zero_weight 0 0 = zeroAddress
   \<and> zeroAddress \<noteq> w_V"
  by (simp add: cex_zero_weight_def getActiveValidators_def NewPoS_def RegisterValidator_def
      SelectValidator_def zeroAddress_def w_V_def)

subsection \<open>Reward distribution\<close>

text \<open>
  Claim C8. \<open>distributeRewards\<close> guards the two divisions by \<open>TotalDelegated\<close>
  (\<open>TotalDelegated > 0\<close>), but divides by \<open>Stake + TotalDelegated\<close> before that with no
  guard. Two runs of the exported operations reach a validator where that sum is zero
  and \<open>UpdateBlock\<close> panics in \<open>big.Int.Div\<close>: a validator registered with stake 0 under a
  minimum stake of 0, and a validator with stake 1000000 that received a delegation of
  -1000000 (\<open>Delegate\<close> does not check the sign of the amount).
\<close>

theorem UpdateBlock_divides_by_zero:
  "fst (RegisterValidator (NewPoS 0 100) 0 w_V 0 1000 None) = Ok ()
   \<and> fst (UpdateBlock cex_zero_weight 0 (example_block 1 zeroHash [] [])) = Panic DivisionByZero
   \<and> fst (Delegate (snd (RegisterValidator (NewPoS 1000000 100) 0 w_V 1000000 1000 None))
            0 w_D w_V (- 1000000)) = Ok ()
   \<and> fst (UpdateBlock cex_negative_delegation 0 (example_block 1 zeroHash [] [])) = Panic DivisionByZero"
  by (simp add: cex_zero_weight_def cex_negative_delegation_def example_block_def example_header_def NewPoS_def
      RegisterValidator_def Delegate_def UpdateBlock_def distributeRewards_def big_Div_def
      big_Uint64_def w_V_def w_D_def)

section \<open>Properties of the interpreter\<close>

text \<open>
  No setter of \<open>State\<close> returns: \<open>Lock\<close> is granted on the free mutex, and the \<open>RLock\<close> of
  \<open>GetAccount\<close> is not.
\<close>

lemma SetNonce_blocks: "SetNonce s addr nonce = None"
  by (simp add: SetNonce_def GetAccount_holding_def Lock_def RLock_def)
















text \<open>
  \<open>ExecuteTransaction\<close> returns no receipt of a run that succeeded, since \<open>SetNonce\<close> does
  not return; and on an \<open>EVM\<close> as \<open>NewEVM\<close> builds it, whose interpreter has no \<open>evm\<close>, it
  returns no receipt at all: the run panics at the first opcode, or there is no code
  and the run succeeds.
\<close>

lemma ExecuteTransaction_no_success:
  "ExecuteTransaction e tx \<noteq> (Returned receipt None, e')"
  by (auto simp: ExecuteTransaction_def Let_def SetNonce_blocks
      split: option.splits prod.splits outcome.splits)

lemma Run_nil_evm:
  "fst (Run (NewInterpreter None) c ctx st) \<noteq> Err err"
proof (cases "Code c")
  case Nil
  then show ?thesis
    by (simp add: Run_def NewInterpreter_def runLoop.simps loopBody_def)
next
  case (Cons opcode rest)
  then show ?thesis
    by (simp add: Run_def NewInterpreter_def runLoop.simps loopBody_def Let_def)
qed

lemma ExecuteTransaction_NewEVM:
  "\<exists>p. fst (ExecuteTransaction (NewEVM st cfg) tx) = Panicked p"
proof (cases "To tx")
  case None
  then show ?thesis by (simp add: ExecuteTransaction_def)
next
  case (Some to)
  obtain code st1 where gc: "GetCode st to = (code, st1)" by (cases "GetCode st to")
  obtain codeHash st2 where gh: "GetCodeHash st1 to = (codeHash, st2)"
    by (cases "GetCodeHash st1 to")
  let ?c = "\<lparr>Caller = From tx, Contract.Address = to, Contract.Value = Transaction.Value tx,
             Input = Transaction.Data tx, Gas = Transaction.GasLimit tx, Code = code,
             CodeHash = codeHash\<rparr>"
  obtain r c' st3 where run: "Run (NewInterpreter None) ?c (createContext (NewEVM st cfg) tx) st2 = (r, c', st3)"
    by (cases "Run (NewInterpreter None) ?c (createContext (NewEVM st cfg) tx) st2")
  with Run_nil_evm [of ?c "createContext (NewEVM st cfg) tx" st2] have "\<forall>err. r \<noteq> Err err"
    by auto
  with Some gc gh run show ?thesis
    by (cases r)
       (auto simp: ExecuteTransaction_def NewEVM_def Let_def SetNonce_blocks split: prod.splits)
qed






text \<open>
  Claim C9. \<open>pop\<close> on an empty stack returns 0 and leaves the stack empty. \<open>DIV\<close> is
  \<open>opDiv\<close>, which never returns an error and never panics, and which pushes 0 when the
  divisor (the second value popped) is 0, also when it is the 0 that an empty stack
  gives. In the loop, a \<open>DIV\<close> with a zero divisor and a \<open>POP\<close> on an empty stack, each with
  enough gas, are followed by the rest of the code.
\<close>

theorem pop_and_DIV_total:
  "pop [] = (0, [])
   \<and> newJumpTable DIV = Some opDiv
   \<and> (\<forall>m ctx. fst (opDiv m ctx) = Ok ())
   \<and> (\<forall>m ctx. fst (pop (snd (pop (stack m)))) = 0 \<longrightarrow>
         opDiv m ctx = (Ok (), m\<lparr>stack := push 0 (snd (pop (snd (pop (stack m)))))\<rparr>))
   \<and> (\<forall>g ctx m rest.
         Code (contract m) = DIV # rest \<and> getGasCost g DIV \<le> Gas (contract m)
         \<and> fst (pop (snd (pop (stack m)))) = 0 \<longrightarrow>
         runLoop (Some g) ctx m =
           runLoop (Some g) ctx
             (m\<lparr>contract := (contract m)\<lparr>Code := rest, Gas := Gas (contract m) - getGasCost g DIV\<rparr>,
                stack := push 0 (snd (pop (snd (pop (stack m)))))\<rparr>))
   \<and> (\<forall>g ctx m rest.
         Code (contract m) = POP # rest \<and> getGasCost g POP \<le> Gas (contract m)
         \<and> stack m = [] \<longrightarrow>
         runLoop (Some g) ctx m =
           runLoop (Some g) ctx
             (m\<lparr>contract := (contract m)\<lparr>Code := rest, Gas := Gas (contract m) - getGasCost g POP\<rparr>,
                stack := []\<rparr>))"
proof (intro conjI allI impI)
  show "pop [] = (0, [])" by (simp add: pop_def)
  show "newJumpTable DIV = Some opDiv" by (simp add: newJumpTable_def opcode_defs)
next
  fix m :: Machine and ctx
  show "fst (opDiv m ctx) = Ok ()"
    by (simp add: opDiv_def big_Div_def Let_def sgn_if split: prod.splits)
next
  fix m :: Machine and ctx
  assume "fst (pop (snd (pop (stack m)))) = 0"
  then show "opDiv m ctx = (Ok (), m\<lparr>stack := push 0 (snd (pop (snd (pop (stack m)))))\<rparr>)"
    by (cases "pop (stack m)"; cases "pop (snd (pop (stack m)))") (simp add: opDiv_def)
next
  fix g ctx rest and m :: Machine
  assume a: "Code (contract m) = DIV # rest \<and> getGasCost g DIV \<le> Gas (contract m)
         \<and> fst (pop (snd (pop (stack m)))) = 0"
  then have "\<not> Gas (contract m) < getGasCost g DIV" by (simp add: not_less)
  with a show "runLoop (Some g) ctx m =
           runLoop (Some g) ctx
             (m\<lparr>contract := (contract m)\<lparr>Code := rest, Gas := Gas (contract m) - getGasCost g DIV\<rparr>,
                stack := push 0 (snd (pop (snd (pop (stack m)))))\<rparr>)"
    by (subst runLoop.simps, cases "pop (stack m)"; cases "pop (snd (pop (stack m)))")
       (simp add: loopBody_def Let_def newJumpTable_def opDiv_def opcode_defs)
next
  fix g ctx rest and m :: Machine
  assume a: "Code (contract m) = POP # rest \<and> getGasCost g POP \<le> Gas (contract m) \<and> stack m = []"
  then have "\<not> Gas (contract m) < getGasCost g POP" by (simp add: not_less)
  with a show "runLoop (Some g) ctx m =
           runLoop (Some g) ctx
             (m\<lparr>contract := (contract m)\<lparr>Code := rest, Gas := Gas (contract m) - getGasCost g POP\<rparr>,
                stack := []\<rparr>)"
    by (subst runLoop.simps)
       (simp add: loopBody_def Let_def newJumpTable_def opPop_def pop_def opcode_defs)
qed

theorem pop_and_DIV_total_witness:
  "runLoop (Some defaultGasTable) (createContext w_evm w_tx) w_machine =
     (Ok (), w_machine\<lparr>contract := (contract w_machine)\<lparr>Code := [], Gas := 7\<rparr>, stack := [0]\<rparr>)"
proof -
  have h: "Code (contract w_machine) = DIV # [] \<and> getGasCost defaultGasTable DIV \<le> Gas (contract w_machine)
         \<and> fst (pop (snd (pop (stack w_machine)))) = 0"
    by (simp add: w_machine_def getGasCost_def defaultGasTable_def opcode_defs pop_def word_le_nat_alt)
  from pop_and_DIV_total [THEN conjunct2, THEN conjunct2, THEN conjunct2, THEN conjunct2,
      THEN conjunct1, rule_format, OF h, of "createContext w_evm w_tx"]
  show ?thesis
    by (simp add: runLoop.simps loopBody_def w_machine_def getGasCost_def defaultGasTable_def
        opcode_defs pop_def push_def)
qed

text \<open>
  Claim C10. With \<open>tx.To = nil\<close>, \<open>ExecuteTransaction\<close> panics on \<open>*tx.To\<close> before it reads
  or writes anything: it returns no receipt and no error, and it does not reach
  \<open>CreateContract\<close>. Whenever it returns, \<open>tx.To\<close> is not nil.
\<close>

theorem ExecuteTransaction_requires_To:
  "(To tx = None \<longrightarrow> ExecuteTransaction e tx = (Panicked NilPointerDereference, e))
   \<and> (\<forall>receipt err e'. ExecuteTransaction e tx = (Returned receipt err, e') \<longrightarrow> To tx \<noteq> None)"
  by (cases "To tx") (simp_all add: ExecuteTransaction_def)

theorem ExecuteTransaction_requires_To_witness:
  "ExecuteTransaction w_evm (w_tx\<lparr>To := None\<rparr>) = (Panicked NilPointerDereference, w_evm)"
  using ExecuteTransaction_requires_To [of "w_tx\<lparr>To := None\<rparr>" w_evm] by simp

section \<open>Properties of the orchestrator\<close>

subsection \<open>What validation and execution leave alone\<close>











subsection \<open>ProcessBlock and the tip\<close>


subsection \<open>An example chain\<close>

text \<open>
  An environment and a chain for the examples below. In the environment every signature
  verifies, the hash of a header is its number and extra data padded to 32 bytes, and the
  encoding of a block is its hash followed by its extra data. The chain has a genesis
  block and a block 1 on top of it, both in the block cache, and one registered
  validator, who signs every block of the examples.
\<close>

lemma ex_hashes:
  "Block.Hash ex_genesis = replicate 30 0 @ [0, 0]"
  "Block.Hash ex_block1 = replicate 30 0 @ [1, 1]"
  "Block.Hash ex_fork = replicate 30 0 @ [1, 2]"
  by (simp_all add: ex_genesis_def ex_block1_def ex_fork_def example_block_def example_env_def
      example_header_def BytesToHash_def)

lemma ex_validate:
  "ValidateBlock example_env ex_chain 0 ex_fork = (Ok (), ex_chain)"
  by (simp add: ValidateBlock_def ex_hashes GetBlockByHash_def ex_chain_def
      PoS_ValidateBlock_def SelectValidator_def getActiveValidators_def ex_pos_def NewPoS_def
      RegisterValidator_def w_V_def example_env_def ex_fork_def example_block_def
      example_header_def big_Uint64_def BytesToHash_def)

lemma ex_fork_fields:
  "Transactions ex_fork = []" "BlockHeader.Validator (Header ex_fork) = w_V"
  "BlockHeader.Number (Header ex_fork) = 1" "ParentHash (Header ex_fork) = Block.Hash ex_genesis"
  "BlockHeader.Number (Header ex_block1) = 1"
  by (simp_all add: ex_fork_def ex_block1_def example_block_def example_header_def)

lemma ex_process:
  "ProcessBlock example_env ex_chain 0 0 ex_fork =
     (Ok (),
      (snd (writeBlock example_env ex_chain ex_fork))
        \<lparr>currentBlock := ex_fork, consensus := snd (UpdateBlock ex_pos 0 ex_fork)\<rparr>)"
proof -
  have exec: "ExecuteTransactions ex_chain (Transactions ex_fork) = (Ok [], ex_chain)"
    by (simp add: ExecuteTransactions_def ex_fork_fields ex_chain_def)
  have commit: "Commit example_env (chain_state ex_chain) = (None, chain_state ex_chain)"
    by (simp add: Commit_def chain_state_def ex_chain_def NewEVM_def)
  have same: "with_state (chain_state ex_chain) ex_chain = ex_chain"
    by (simp add: with_state_def chain_state_def)
  have wr: "fst (writeBlock example_env ex_chain ex_fork) = None"
    by (simp add: writeBlock_def example_env_def db_Put_def db_fault_def chain_db_def
        chain_state_def ex_chain_def NewEVM_def)
  have cons: "consensus (snd (writeBlock example_env ex_chain ex_fork)) = ex_pos"
    by (simp add: writeBlock_def example_env_def db_Put_def db_fault_def chain_db_def
        chain_state_def ex_chain_def NewEVM_def with_db_def with_state_def)
  have upd: "fst (UpdateBlock ex_pos 0 ex_fork) = Ok ()"
    by (simp add: UpdateBlock_def ex_fork_fields ex_pos_def NewPoS_def RegisterValidator_def
        w_V_def distributeRewards_def big_Div_def big_Uint64_def)
  obtain bc4 where w: "writeBlock example_env ex_chain ex_fork = (None, bc4)"
    using wr by (cases "writeBlock example_env ex_chain ex_fork") simp
  obtain pos where u: "UpdateBlock ex_pos 0 ex_fork = (Ok (), pos)"
    using upd by (cases "UpdateBlock ex_pos 0 ex_fork") simp
  from cons w have "consensus bc4 = ex_pos" by simp
  with w u show ?thesis
    by (simp add: ProcessBlock_def ex_validate exec commit same)
qed

subsection \<open>Block linkage\<close>

text \<open>
  Claim C3. \<open>ValidateBlock\<close> checks that a block with a positive number has a parent the
  node knows; it compares neither the parent with \<open>currentBlock\<close> nor the two numbers. With
  block 1 as the tip, \<open>ProcessBlock\<close> accepts a second block of number 1 whose parent is
  the genesis block and makes it the tip: its parent hash is not the hash of the former
  tip and its number is not the former tip's number plus 1.
\<close>

theorem ProcessBlock_accepts_fork:
  "fst (ProcessBlock example_env ex_chain 0 0 ex_fork) = Ok ()
   \<and> currentBlock (snd (ProcessBlock example_env ex_chain 0 0 ex_fork)) = ex_fork
   \<and> currentBlock ex_chain = ex_block1
   \<and> ParentHash (Header ex_fork) \<noteq> Block.Hash ex_block1
   \<and> BlockHeader.Number (Header ex_fork) \<noteq> BlockHeader.Number (Header ex_block1) + 1"
  by (simp add: ex_process ex_fork_fields ex_hashes) (simp add: ex_chain_def)

subsection \<open>A block whose persistence fails\<close>

text \<open>
  No block with a transaction is accepted: \<open>ExecuteTransaction\<close> returns no receipt
  without an error, so \<open>ExecuteTransactions\<close> succeeds on the empty list only.
\<close>

lemma executeLoop_Ok:
  "executeLoop e rs txs = (Ok receipts, e') \<Longrightarrow> txs = []"
proof (cases txs)
  case Nil
  then show ?thesis by simp
next
  case (Cons tx rest)
  assume ok: "executeLoop e rs txs = (Ok receipts, e')"
  obtain r1 e1 where x: "ExecuteTransaction e tx = (r1, e1)" by (cases "ExecuteTransaction e tx")
  show ?thesis
  proof (cases r1)
    case (Panicked p)
    with ok Cons x show ?thesis by simp
  next
    case (Returned receipt err)
    with x ExecuteTransaction_no_success [of e tx receipt e1] have "err \<noteq> None" by auto
    with ok Cons x Returned show ?thesis by auto
  qed
qed

lemma ProcessBlock_Ok_no_transaction:
  assumes "ProcessBlock env bc now draw block = (Ok (), bc')"
  shows "Transactions block = []"
proof -
  obtain rv bc1 where v: "ValidateBlock env bc draw block = (rv, bc1)"
    by (cases "ValidateBlock env bc draw block")
  obtain rx bc2 where x: "ExecuteTransactions bc1 (Transactions block) = (rx, bc2)"
    by (cases "ExecuteTransactions bc1 (Transactions block)")
  from assms v have "\<exists>u. rv = Ok u" by (cases rv) (simp_all add: ProcessBlock_def)
  with assms v x have "\<exists>receipts. rx = Ok receipts"
    by (cases rx) (auto simp: ProcessBlock_def)
  with x show ?thesis
    by (auto simp: ExecuteTransactions_def split: prod.splits dest: executeLoop_Ok)
qed

















subsection \<open>Transaction validation\<close>

text \<open>
  \<open>ValidateTransaction\<close> computes the fee as \<open>GasPrice * int64(GasLimit)\<close>. Below \<open>2^63\<close> the
  conversion changes nothing, and the transaction is rejected exactly when the signature
  does not verify, or the nonce differs from the account's, or the balance is below
  \<open>GasPrice * GasLimit + Value\<close>, or the gas price is below the minimum; a rejected
  transaction does not reach the pool.
\<close>

lemma sint_below_wrap: "(x::64 word) < 2^63 \<Longrightarrow> sint x = uint x"
proof -
  assume "x < 2^63"
  then have up: "uint x < 2^63" by (simp add: word_less_def)
  have "- (2 ^ 63) \<le> (0::int)" by simp
  also have "0 \<le> uint x" by simp
  finally have "signed_take_bit 63 (uint x) = uint x"
    using up by (intro signed_take_bit_int_eq_self)
  then show ?thesis by (simp add: sint_uint)
qed

lemma ValidateTransaction_below_wrap:
  assumes "Transaction.GasLimit tx < 2 ^ 63"
  shows "(fst (ValidateTransaction env bc tx) \<noteq> None \<longleftrightarrow>
            \<not> verifySignature env (From tx) (Transaction.Hash tx) (V tx) (R tx) (S tx)
            \<or> Transaction.Nonce tx \<noteq> Account.Nonce (fst (GetAccount (chain_state bc) (From tx)))
            \<or> Account.Balance (fst (GetAccount (chain_state bc) (From tx)))
                < Transaction.GasPrice tx * uint (Transaction.GasLimit tx) + Transaction.Value tx
            \<or> Transaction.GasPrice tx < MinGasPrice (Blockchain.config bc))
         \<and> (fst (AddTransaction env bc tx) = fst (ValidateTransaction env bc tx))
         \<and> (fst (AddTransaction env bc tx) \<noteq> None \<longrightarrow>
              txPool (snd (AddTransaction env bc tx)) = txPool bc)"
  using sint_below_wrap [OF assms]
  by (cases "GetAccount (chain_state bc) (From tx)")
     (auto simp: ValidateTransaction_def AddTransaction_def Let_def with_state_def)

text \<open>
  Claim C2. With \<open>GasLimit = 2^63\<close> the conversion to \<open>int64\<close> gives \<open>-2^63\<close>: for a sender
  whose balance is 0, a transaction with gas price \<open>10^9\<close> (the minimum of the
  configuration) and value 0 has a fee of \<open>2^63 * 10^9\<close>, and \<open>ValidateTransaction\<close> returns
  no error; \<open>AddTransaction\<close> puts it in the pool.
\<close>

theorem ValidateTransaction_accepts_unpayable_fee:
  "fst (ValidateTransaction example_env ex_chain wrap_tx) = None
   \<and> fst (GetBalance (chain_state ex_chain) (From wrap_tx)) = 0
   \<and> Transaction.GasPrice wrap_tx * uint (Transaction.GasLimit wrap_tx) + Transaction.Value wrap_tx
       = 9223372036854775808000000000
   \<and> fst (AddTransaction example_env ex_chain wrap_tx) = None
   \<and> pending (txPool (snd (AddTransaction example_env ex_chain wrap_tx)))
       = [(Transaction.Hash wrap_tx, wrap_tx)]"
  by (simp add: AddTransaction_def ValidateTransaction_def GetBalance_def GetAccount_def db_Get_def
      db_fault_def chain_state_def with_state_def ex_chain_def NewEVM_def example_env_def wrap_tx_def
      w_config_def big_SetBytes_def ex_pool_def Let_def)

end
